theory Spec2Isabelle
  imports Complex_Main "HOL-Library.Log_Nat"
begin

section \<open>JavaScript numbers\<close>

text \<open>
  Every number of the program is a JavaScript \<open>Number\<close>, an IEEE 754 binary64 value: a
  finite value, which is a rational, or \<open>Infinity\<close>, \<open>-Infinity\<close> or \<open>NaN\<close>. On finite
  operands every arithmetic operator of the source is the exact operation followed by
  \<open>fl\<close>, the rounding to the nearest value with a 53-bit significand, ties to the even
  significand; a division by zero gives \<open>Infinity\<close>, \<open>-Infinity\<close> or \<open>NaN\<close>, and the
  operators carry these values on as IEEE 754 prescribes. The exponent range is not
  bounded here: overflow of a finite result to \<open>Infinity\<close> and subnormals are outside the
  model, and so is the sign of zero, the zero of the model being \<open>+0\<close>. The amounts of
  money the program handles are far from both ends of the exponent range.
\<close>

datatype number = Finite rat | Infinity | MinusInfinity | NaN

definition expo :: "rat \<Rightarrow> int" where
  \<comment> \<open>The binary exponent \<open>e\<close> of a positive \<open>x\<close>: \<open>2\<^sup>e \<le> x < 2\<^sup>e\<^sup>+\<^sup>1\<close>.\<close>
  "expo x = (if 1 \<le> x then bitlen \<lfloor>x\<rfloor> - 1 else - bitlen (\<lceil>1 / x\<rceil> - 1))"

definition round_half_even :: "rat \<Rightarrow> int" where
  "round_half_even m =
     (let f = \<lfloor>m\<rfloor>; r = m - of_int f
      in if r < 1 / 2 then f else if 1 / 2 < r then f + 1 else if even f then f else f + 1)"

definition fl :: "rat \<Rightarrow> rat" where
  "fl x = (if x = 0 then 0
           else let u = 2 powi (expo \<bar>x\<bar> - 52)
                in sgn x * of_int (round_half_even (\<bar>x\<bar> / u)) * u)"

fun js_add :: "number \<Rightarrow> number \<Rightarrow> number" where
  "js_add (Finite a) (Finite b) = Finite (fl (a + b))"
| "js_add NaN b = NaN"
| "js_add a NaN = NaN"
| "js_add Infinity MinusInfinity = NaN"
| "js_add MinusInfinity Infinity = NaN"
| "js_add Infinity b = Infinity"
| "js_add a Infinity = Infinity"
| "js_add MinusInfinity b = MinusInfinity"
| "js_add a MinusInfinity = MinusInfinity"

fun js_sub :: "number \<Rightarrow> number \<Rightarrow> number" where
  "js_sub (Finite a) (Finite b) = Finite (fl (a - b))"
| "js_sub NaN b = NaN"
| "js_sub a NaN = NaN"
| "js_sub Infinity Infinity = NaN"
| "js_sub MinusInfinity MinusInfinity = NaN"
| "js_sub Infinity b = Infinity"
| "js_sub a MinusInfinity = Infinity"
| "js_sub MinusInfinity b = MinusInfinity"
| "js_sub a Infinity = MinusInfinity"

fun js_mul :: "number \<Rightarrow> number \<Rightarrow> number" where
  "js_mul (Finite a) (Finite b) = Finite (fl (a * b))"
| "js_mul NaN b = NaN"
| "js_mul a NaN = NaN"
| "js_mul Infinity (Finite b) =
     (if b = 0 then NaN else if 0 < b then Infinity else MinusInfinity)"
| "js_mul MinusInfinity (Finite b) =
     (if b = 0 then NaN else if 0 < b then MinusInfinity else Infinity)"
| "js_mul (Finite a) Infinity =
     (if a = 0 then NaN else if 0 < a then Infinity else MinusInfinity)"
| "js_mul (Finite a) MinusInfinity =
     (if a = 0 then NaN else if 0 < a then MinusInfinity else Infinity)"
| "js_mul Infinity Infinity = Infinity"
| "js_mul MinusInfinity MinusInfinity = Infinity"
| "js_mul Infinity MinusInfinity = MinusInfinity"
| "js_mul MinusInfinity Infinity = MinusInfinity"

fun js_div :: "number \<Rightarrow> number \<Rightarrow> number" where
  "js_div (Finite a) (Finite b) =
     (if b \<noteq> 0 then Finite (fl (a / b))
      else if a = 0 then NaN else if 0 < a then Infinity else MinusInfinity)"
| "js_div NaN b = NaN"
| "js_div a NaN = NaN"
| "js_div (Finite a) Infinity = Finite 0"
| "js_div (Finite a) MinusInfinity = Finite 0"
| "js_div Infinity (Finite b) = (if 0 \<le> b then Infinity else MinusInfinity)"
| "js_div MinusInfinity (Finite b) = (if 0 \<le> b then MinusInfinity else Infinity)"
| "js_div Infinity b = NaN"
| "js_div MinusInfinity b = NaN"

fun js_round :: "number \<Rightarrow> number" where
  \<comment> \<open>\<open>Math.round\<close>: the nearest integer, a tie going up; exact on binary64 values.\<close>
  "js_round (Finite x) = Finite (of_int \<lfloor>x + 1 / 2\<rfloor>)"
| "js_round x = x"

fun js_lt :: "number \<Rightarrow> number \<Rightarrow> bool" where
  \<comment> \<open>\<open>a < b\<close>; every comparison with \<open>NaN\<close> is false.\<close>
  "js_lt (Finite a) (Finite b) = (a < b)"
| "js_lt NaN b = False"
| "js_lt a NaN = False"
| "js_lt a MinusInfinity = False"
| "js_lt Infinity b = False"
| "js_lt MinusInfinity b = True"
| "js_lt a Infinity = True"

definition js_gt :: "number \<Rightarrow> number \<Rightarrow> bool" where
  \<comment> \<open>\<open>a > b\<close>\<close>
  "js_gt a b = js_lt b a"

definition js_strict_equal :: "number \<Rightarrow> number \<Rightarrow> bool" where
  \<comment> \<open>\<open>a === b\<close> on numbers\<close>
  "js_strict_equal a b = (a = b \<and> a \<noteq> NaN)"

definition js_ge :: "number \<Rightarrow> number \<Rightarrow> bool" where
  \<comment> \<open>\<open>a >= b\<close>\<close>
  "js_ge a b = (js_lt b a \<or> js_strict_equal a b)"

definition js_le :: "number \<Rightarrow> number \<Rightarrow> bool" where
  \<comment> \<open>\<open>a <= b\<close>\<close>
  "js_le a b = (js_lt a b \<or> js_strict_equal a b)"

definition isNaN :: "number \<Rightarrow> bool" where
  "isNaN x = (x = NaN)"

definition number_truthy :: "number \<Rightarrow> bool" where
  \<comment> \<open>A number in a condition: every number but zero and \<open>NaN\<close> is truthy.\<close>
  "number_truthy x = (x \<noteq> Finite 0 \<and> x \<noteq> NaN)"

fun isInteger :: "number \<Rightarrow> bool" where
  \<comment> \<open>\<open>Number.isInteger\<close>\<close>
  "isInteger (Finite x) = (of_int \<lfloor>x\<rfloor> = x)"
| "isInteger x = False"

definition toFixed2 :: "rat \<Rightarrow> rat" where
  \<comment> \<open>The decimal that the string \<open>x.toFixed(2)\<close> denotes, for \<open>\<bar>x\<bar> < 10\<^sup>2\<^sup>1\<close>: the sign is
      set aside and \<open>\<bar>x\<bar>\<close> goes to the nearest multiple of \<open>1/100\<close>, the larger one at a tie.\<close>
  "toFixed2 x = sgn x * of_int \<lfloor>\<bar>x\<bar> * 100 + 1 / 2\<rfloor> / 100"

fun parseFloat_toFixed2 :: "number \<Rightarrow> number" where
  \<comment> \<open>\<open>parseFloat(x.toFixed(2))\<close>: the binary64 value nearest to that decimal. From
      \<open>10\<^sup>2\<^sup>1\<close> on, and for \<open>Infinity\<close>, \<open>-Infinity\<close> and \<open>NaN\<close>, \<open>toFixed\<close> prints the number
      as \<open>String\<close> does, and \<open>parseFloat\<close> reads the same number back.\<close>
  "parseFloat_toFixed2 (Finite x) =
     (if \<bar>x\<bar> < 10 ^ 21 then Finite (fl (toFixed2 x)) else Finite x)"
| "parseFloat_toFixed2 x = x"

definition finiteValue :: "number \<Rightarrow> rat" where
  \<comment> \<open>The rational that a finite number is.\<close>
  "finiteValue x = (case x of Finite q \<Rightarrow> q | _ \<Rightarrow> 0)"

section \<open>Profit calculation utilities (calculator.js)\<close>

definition DEFAULT_EBAY_FEE_PERCENT :: number where
  "DEFAULT_EBAY_FEE_PERCENT = Finite 13"

definition DEFAULT_EBAY_TRANSACTION_FEE_CENTS :: number where
  "DEFAULT_EBAY_TRANSACTION_FEE_CENTS = Finite 30"

definition DEFAULT_SHIPPING_COST_CENTS :: number where
  "DEFAULT_SHIPPING_COST_CENTS = Finite 500"

definition calculateEbayFees :: "number \<Rightarrow> number \<Rightarrow> number \<Rightarrow> number" where
  "calculateEbayFees salePriceCents feePercent transactionFeeCents =
     (let salePriceDollars = js_div salePriceCents (Finite 100);
          finalValueFee = js_mul salePriceDollars (js_div feePercent (Finite 100));
          totalFeesDollars = js_add finalValueFee (js_div transactionFeeCents (Finite 100))
      in js_round (js_mul totalFeesDollars (Finite 100)))"

record profit =
  purchasePriceCents :: number
  salePriceCents :: number
  ebayFeeCents :: number
  ebayTransactionFeeCents :: number
  shippingCostCents :: number
  otherCostsCents :: number
  totalCostsCents :: number
  grossProfitCents :: number
  netProfitCents :: number
  roi :: number

definition calculateProfit :: "number \<Rightarrow> number \<Rightarrow> number \<Rightarrow> number \<Rightarrow> profit" where
  \<comment> \<open>The arguments are \<open>purchasePriceCents\<close>, \<open>salePriceCents\<close>, \<open>shippingCostCents\<close> and
      \<open>otherCostsCents\<close>. The defaults of the last two are \<open>DEFAULT_SHIPPING_COST_CENTS\<close>
      and \<open>0\<close>; a caller that omits them passes these.\<close>
  "calculateProfit purchase sale shipping other =
     (let ebayFee = calculateEbayFees sale DEFAULT_EBAY_FEE_PERCENT DEFAULT_EBAY_TRANSACTION_FEE_CENTS;
          ebayTransactionFee = DEFAULT_EBAY_TRANSACTION_FEE_CENTS;
          totalCosts = js_add (js_add (js_add purchase shipping) other) ebayFee;
          grossProfit = js_sub sale purchase;
          netProfit = js_sub sale totalCosts;
          roi0 = (if js_gt purchase (Finite 0)
                  then js_mul (js_div netProfit purchase) (Finite 100)
                  else Finite 0)
      in \<lparr> purchasePriceCents = purchase,
           salePriceCents = sale,
           ebayFeeCents = js_sub ebayFee ebayTransactionFee,
           ebayTransactionFeeCents = ebayTransactionFee,
           shippingCostCents = shipping,
           otherCostsCents = other,
           totalCostsCents = totalCosts,
           grossProfitCents = grossProfit,
           netProfitCents = netProfit,
           roi = js_div (js_round (js_mul roi0 (Finite 100))) (Finite 100) \<rparr>)"

definition isProfitable :: "number \<Rightarrow> number \<Rightarrow> number \<Rightarrow> bool" where
  "isProfitable purchase marketValue minRoi =
     js_ge (roi (calculateProfit purchase marketValue DEFAULT_SHIPPING_COST_CENTS (Finite 0)))
           minRoi"

text \<open>
  The argument of \<open>Math.round\<close> in \<open>calculateEbayFees\<close> at the default fee rates: the
  total fee in cents before it is rounded.
\<close>

definition totalFeesCentsUnrounded :: "number \<Rightarrow> number" where
  "totalFeesCentsUnrounded sale =
     js_mul (js_add (js_mul (js_div sale (Finite 100))
                            (js_div DEFAULT_EBAY_FEE_PERCENT (Finite 100)))
                    (js_div DEFAULT_EBAY_TRANSACTION_FEE_CENTS (Finite 100)))
            (Finite 100)"

text \<open>
  The fee rule as the specification words it: the percentage fee alone is rounded to a
  cent, \<open>round(sale_price_cents/100 * percent/100 * 100)\<close>, and the fixed fee is added
  to the rounded amount.
\<close>

definition spec_percentage_fee :: "number \<Rightarrow> number" where
  "spec_percentage_fee sale =
     js_round (js_mul (js_div (js_mul (js_div sale (Finite 100)) DEFAULT_EBAY_FEE_PERCENT)
                              (Finite 100))
                      (Finite 100))"

definition spec_fee_amount :: "number \<Rightarrow> number" where
  "spec_fee_amount sale =
     js_add (spec_percentage_fee sale) DEFAULT_EBAY_TRANSACTION_FEE_CENTS"


section \<open>Catalogue products (api-client.js)\<close>

text \<open>
  A value read from a parsed JSON object: absent (\<open>undefined\<close>), \<open>null\<close>, a number or a
  string. Booleans, arrays and nested objects do not occur under the keys read here and
  are not modelled. A number that JSON text denotes is finite, so the numbers that
  arrive in request bodies, catalogue products and stored records are rationals; a
  literal beyond the range of binary64 is outside the model. A product of the catalogue
  is a JSON object, a lookup from keys to such values.
\<close>

datatype jsval = JUndefined | JNull | JNum rat | JStr string

fun truthy :: "jsval \<Rightarrow> bool" where
  "truthy JUndefined = False"
| "truthy JNull = False"
| "truthy (JNum n) = (n \<noteq> 0)"
| "truthy (JStr s) = (s \<noteq> [])"

definition js_or :: "jsval \<Rightarrow> jsval \<Rightarrow> jsval" where
  \<comment> \<open>\<open>a || b\<close>\<close>
  "js_or a b = (if truthy a then a else b)"

type_synonym product = "string \<Rightarrow> jsval"

text \<open>
  \<open>parseFloat\<close> on a string is a parameter of the model. On a number, \<open>parseFloat\<close>
  prints the number and reads it back, which gives the number.
\<close>

fun parsePriceToCents :: "(string \<Rightarrow> number) \<Rightarrow> jsval \<Rightarrow> number" where
  "parsePriceToCents parseFloat JNull = Finite 0"
| "parsePriceToCents parseFloat JUndefined = Finite 0"
| "parsePriceToCents parseFloat (JStr s) =
     (if s = [] then Finite 0
      else let priceFloat = parseFloat s
           in if isNaN priceFloat then Finite 0
              else if js_lt priceFloat (Finite 1000)
              then js_round (js_mul priceFloat (Finite 100))
              else js_round priceFloat)"
| "parsePriceToCents parseFloat (JNum n) =
     (let priceValue = Finite n
      in if isInteger priceValue then priceValue
         else if js_lt priceValue (Finite 1000)
         then js_round (js_mul priceValue (Finite 100))
         else js_round priceValue)"

record card =
  card_id :: jsval
  productName :: jsval
  consoleName :: jsval
  genre :: jsval
  releaseDate :: jsval
  loosePriceCents :: number
  psa10PriceCents :: number
  grade9PriceCents :: number
  grade8PriceCents :: number
  grade7PriceCents :: number
  bgs10PriceCents :: number
  cgc10PriceCents :: number
  sgc10PriceCents :: number
  salesVolume :: jsval

definition parseProductData :: "(string \<Rightarrow> number) \<Rightarrow> product \<Rightarrow> card" where
  "parseProductData parseFloat raw =
     \<lparr> card_id = js_or (raw ''id'') (raw ''id''),
       productName = js_or (js_or (raw ''product-name'') (raw ''productName'')) (JStr []),
       consoleName = js_or (js_or (raw ''console-name'') (raw ''consoleName'')) (JStr []),
       genre = js_or (raw ''genre'') (JStr []),
       releaseDate = js_or (js_or (raw ''release-date'') (raw ''releaseDate'')) (JStr []),
       loosePriceCents =
         parsePriceToCents parseFloat (js_or (raw ''loose-price'') (raw ''loosePriceCents'')),
       psa10PriceCents =
         parsePriceToCents parseFloat (js_or (raw ''manual-only-price'') (raw ''psa10PriceCents'')),
       grade9PriceCents =
         parsePriceToCents parseFloat (js_or (raw ''graded-price'') (raw ''grade9PriceCents'')),
       grade8PriceCents =
         parsePriceToCents parseFloat (js_or (raw ''new-price'') (raw ''grade8PriceCents'')),
       grade7PriceCents =
         parsePriceToCents parseFloat (js_or (raw ''cib-price'') (raw ''grade7PriceCents'')),
       bgs10PriceCents =
         parsePriceToCents parseFloat (js_or (raw ''bgs-10-price'') (raw ''bgs10PriceCents'')),
       cgc10PriceCents =
         parsePriceToCents parseFloat (js_or (raw ''condition-17-price'') (raw ''cgc10PriceCents'')),
       sgc10PriceCents =
         parsePriceToCents parseFloat (js_or (raw ''condition-18-price'') (raw ''sgc10PriceCents'')),
       salesVolume = js_or (js_or (raw ''sales-volume'') (raw ''salesVolume'')) (JNum 0) \<rparr>"

section \<open>Finding deals (find-deals.js)\<close>

text \<open>
  \<open>String.prototype.toLowerCase\<close> follows the Unicode case mappings and is, like
  \<open>parseFloat\<close>, a parameter of the model. \<open>js_includes hay needle\<close> is
  \<open>hay.includes(needle)\<close>.
\<close>

fun startsWith :: "string \<Rightarrow> string \<Rightarrow> bool" where
  "startsWith s [] = True"
| "startsWith [] (c # cs) = False"
| "startsWith (x # xs) (c # cs) = (x = c \<and> startsWith xs cs)"

fun js_includes :: "string \<Rightarrow> string \<Rightarrow> bool" where
  "js_includes [] needle = (needle = [])"
| "js_includes (x # xs) needle = (startsWith (x # xs) needle \<or> js_includes xs needle)"

text \<open>
  The fields of the request body that the loop reads: \<open>None\<close> is an absent field. The
  query only selects the products the catalogue returns, which are an argument here.
\<close>

record find_deals_request =
  minRoi :: "rat option"
  maxPrice :: "rat option"
  genre :: "string option"

record deal =
  deal_card :: card
  marketValueCents :: number
  recommendedBuyPriceCents :: number
  potentialProfitCents :: number
  roi :: number

datatype error = TypeError

definition genreFilterSkips ::
  "(string \<Rightarrow> string) \<Rightarrow> string option \<Rightarrow> jsval \<Rightarrow> error + bool" where
  \<comment> \<open>\<open>genre && card.genre && !card.genre.toLowerCase().includes(genre.toLowerCase())\<close>;
      a truthy \<open>card.genre\<close> that is a number has no \<open>toLowerCase\<close>, and the call throws.\<close>
  "genreFilterSkips toLowerCase genreArg cardGenre =
     (case genreArg of
        None \<Rightarrow> Inr False
      | Some g \<Rightarrow>
          if g = [] then Inr False
          else if \<not> truthy cardGenre then Inr False
          else (case cardGenre of
                  JStr s \<Rightarrow> Inr (\<not> js_includes (toLowerCase s) (toLowerCase g))
                | _ \<Rightarrow> Inl TypeError))"

definition evaluateProduct ::
  "(string \<Rightarrow> string) \<Rightarrow> (string \<Rightarrow> number) \<Rightarrow> find_deals_request \<Rightarrow> product
     \<Rightarrow> error + deal option" where
  \<comment> \<open>One turn of the loop over the products: \<open>Inr None\<close> is \<open>continue\<close> or a deal below
      the minimum ROI, \<open>Inr (Some d)\<close> is \<open>deals.push(d)\<close>. The literal \<open>0.8\<close> is the
      binary64 value \<open>fl (8 / 10)\<close>.\<close>
  "evaluateProduct toLowerCase parseFloat body raw =
     (let c = parseProductData parseFloat raw
      in case genreFilterSkips toLowerCase (find_deals_request.genre body) (card.genre c) of
           Inl e \<Rightarrow> Inl e
         | Inr True \<Rightarrow> Inr None
         | Inr False \<Rightarrow>
             (let marketValue = (if number_truthy (loosePriceCents c) then loosePriceCents c
                                 else Finite 0)
              in if js_strict_equal marketValue (Finite 0) then Inr None
                 else
                   let recommendedBuyPrice =
                         js_round (js_mul marketValue (Finite (fl (8 / 10))))
                   in if (case maxPrice body of
                            None \<Rightarrow> False
                          | Some m \<Rightarrow>
                              m \<noteq> 0
                              \<and> js_gt recommendedBuyPrice (js_mul (Finite m) (Finite 100)))
                      then Inr None
                      else
                        let profitCalc =
                              calculateProfit recommendedBuyPrice marketValue
                                DEFAULT_SHIPPING_COST_CENTS (Finite 0)
                        in if js_ge (profit.roi profitCalc)
                                (Finite (case minRoi body of None \<Rightarrow> 20 | Some r \<Rightarrow> r))
                           then Inr (Some \<lparr> deal_card = c,
                                            marketValueCents = marketValue,
                                            recommendedBuyPriceCents = recommendedBuyPrice,
                                            potentialProfitCents = profit.netProfitCents profitCalc,
                                            roi = profit.roi profitCalc \<rparr>)
                           else Inr None))"

fun collectDeals ::
  "(string \<Rightarrow> string) \<Rightarrow> (string \<Rightarrow> number) \<Rightarrow> find_deals_request \<Rightarrow> product list
     \<Rightarrow> error + deal list" where
  "collectDeals toLowerCase parseFloat body [] = Inr []"
| "collectDeals toLowerCase parseFloat body (raw # products) =
     (case evaluateProduct toLowerCase parseFloat body raw of
        Inl e \<Rightarrow> Inl e
      | Inr r \<Rightarrow>
          (case collectDeals toLowerCase parseFloat body products of
             Inl e \<Rightarrow> Inl e
           | Inr deals \<Rightarrow> Inr (case r of None \<Rightarrow> deals | Some d \<Rightarrow> d # deals)))"

text \<open>
  \<open>Array.prototype.sort\<close> is a stable sort (ECMAScript 2019; the functions run on
  Node.js 18). For a comparator that orders by a key, the
  result of a stable sort is determined, so the insertion sort below computes what any
  implementation does. An element goes in front of the first element that the
  comparator does not put before it, which it does with a result above zero (a result
  of \<open>NaN\<close> counts as zero); \<open>foldr\<close> inserts the later elements first, so an element
  stays in front of the equal elements that followed it.
\<close>

fun insertBy :: "('a \<Rightarrow> 'a \<Rightarrow> number) \<Rightarrow> 'a \<Rightarrow> 'a list \<Rightarrow> 'a list" where
  "insertBy cmp x [] = [x]"
| "insertBy cmp x (y # ys) =
     (if js_gt (cmp x y) (Finite 0) then y # insertBy cmp x ys else x # y # ys)"

definition sortBy :: "('a \<Rightarrow> 'a \<Rightarrow> number) \<Rightarrow> 'a list \<Rightarrow> 'a list" where
  "sortBy cmp xs = foldr (insertBy cmp) xs []"

definition byRoiDescending :: "deal \<Rightarrow> deal \<Rightarrow> number" where
  \<comment> \<open>\<open>(a, b) => b.roi - a.roi\<close>\<close>
  "byRoiDescending a b = js_sub (deal.roi b) (deal.roi a)"

definition findDeals ::
  "(string \<Rightarrow> string) \<Rightarrow> (string \<Rightarrow> number) \<Rightarrow> find_deals_request \<Rightarrow> product list
     \<Rightarrow> error + deal list" where
  "findDeals toLowerCase parseFloat body products =
     (case collectDeals toLowerCase parseFloat body products of
        Inl e \<Rightarrow> Inl e
      | Inr deals \<Rightarrow> Inr (sortBy byRoiDescending deals))"

text \<open>
  The deals in the order of the products they come from, before they are sorted.
\<close>

definition dealsInInputOrder ::
  "(string \<Rightarrow> string) \<Rightarrow> (string \<Rightarrow> number) \<Rightarrow> find_deals_request \<Rightarrow> product list
     \<Rightarrow> deal list" where
  "dealsInInputOrder toLowerCase parseFloat body products =
     List.map_filter
       (\<lambda>raw. case evaluateProduct toLowerCase parseFloat body raw of
                Inr (Some d) \<Rightarrow> Some d
              | _ \<Rightarrow> None)
       products"

text \<open>
  Products for the scenarios: one priced key, with or without a genre. No scenario
  parses a string, and the genres of the scenarios are ASCII text, on which
  \<open>toLowerCase\<close> maps the letters \<open>A\<close> to \<open>Z\<close> and leaves every other character.
\<close>

definition asciiLowerCase :: "string \<Rightarrow> string" where
  "asciiLowerCase s =
     map (\<lambda>c. case map_of (zip ''ABCDEFGHIJKLMNOPQRSTUVWXYZ'' ''abcdefghijklmnopqrstuvwxyz'') c of
                 Some l \<Rightarrow> l
               | None \<Rightarrow> c) s"

definition pricedProduct :: "rat \<Rightarrow> product" where
  "pricedProduct cents = (\<lambda>key. if key = ''loose-price'' then JNum cents else JUndefined)"

definition genreProduct :: "string \<Rightarrow> rat \<Rightarrow> product" where
  "genreProduct g cents =
     (\<lambda>key. if key = ''loose-price'' then JNum cents
            else if key = ''genre'' then JStr g else JUndefined)"

definition unpricedProduct :: product where
  "unpricedProduct = (\<lambda>key. JUndefined)"

definition noParseFloat :: "string \<Rightarrow> number" where
  "noParseFloat s = NaN"

text \<open>The deals that the scenarios expect for such products.\<close>

definition pricedDeal :: "rat \<Rightarrow> rat \<Rightarrow> rat \<Rightarrow> rat \<Rightarrow> deal" where
  "pricedDeal cents buy net r =
     \<lparr> deal_card = parseProductData noParseFloat (pricedProduct cents),
       marketValueCents = Finite cents, recommendedBuyPriceCents = Finite buy,
       potentialProfitCents = Finite net, roi = Finite r \<rparr>"

definition genreDeal :: "string \<Rightarrow> rat \<Rightarrow> rat \<Rightarrow> rat \<Rightarrow> rat \<Rightarrow> deal" where
  "genreDeal g cents buy net r =
     \<lparr> deal_card = parseProductData noParseFloat (genreProduct g cents),
       marketValueCents = Finite cents, recommendedBuyPriceCents = Finite buy,
       potentialProfitCents = Finite net, roi = Finite r \<rparr>"

section \<open>Recording a sale (record-sale.js)\<close>

record item =
  item_id :: string
  cardId :: string
  cardName :: string
  consoleName :: string
  genre :: string
  purchaseDate :: string
  purchasePriceCents :: rat
  condition :: string
  quantity :: rat
  notes' :: string
  sold :: bool
  soldDate :: "string option"
  soldPriceCents :: "number option"
  ebayFeesCents :: "number option"
  netProfitCents :: "number option"
  currentValueCents :: rat
  createdAt :: string
  roi :: "number option"
  saleNotes :: "string option"
  updatedAt :: "string option"

record sale =
  sale_id :: string
  inventoryId :: string
  cardId :: string
  cardName :: string
  consoleName :: string
  purchaseDate :: string
  soldDate :: string
  purchasePriceCents :: rat
  soldPriceCents :: number
  ebayFeesCents :: number
  netProfitCents :: number
  roi :: number
  notes' :: string
  createdAt :: string

text \<open>
  The body of the request after \<open>JSON.parse\<close>; \<open>None\<close> is an absent field. An event
  carries the method and either the parsed body or the message of the exception that
  \<open>JSON.parse\<close> throws.
\<close>

record sale_request =
  inventoryId :: "string option"
  soldDate :: "string option"
  soldPrice :: "rat option"
  actualFees :: "rat option"
  notes' :: "string option"

record sale_event =
  httpMethod :: string
  body :: "string + sale_request"

datatype response_body = Empty | Failure string | Recorded sale item

datatype response = Response nat response_body

fun statusCode :: "response \<Rightarrow> nat" where
  "statusCode (Response code content) = code"

text \<open>
  The failure kinds into which the specification divides the failures of an operation,
  and the kind that the status code of a response reports: 400 (Bad Request) a
  validation failure, 404 (Not Found) and 409 (Conflict) a conflict with the state of
  the domain, 500 and above a failure of a collaborator. The handlers report a failure
  with a status code and a message and with nothing else.
\<close>

datatype failure_kind = ValidationFailure | DomainStateConflict | UpstreamFailure

definition spec_failure_kind :: "nat \<Rightarrow> failure_kind option" where
  "spec_failure_kind code =
     (if code = 400 then Some ValidationFailure
      else if code = 404 \<or> code = 409 then Some DomainStateConflict
      else if 500 \<le> code then Some UpstreamFailure
      else None)"

text \<open>
  The two collections of the blob store, each a mapping from an id to a record, read
  and written whole. The handler looks an id up with \<open>inventoryData[inventoryId]\<close>,
  which for the name of a member of \<open>Object.prototype\<close>, such as \<open>constructor\<close>, finds
  that member when the collection has no record of this name; such ids are outside the
  model, where a lookup finds the records of the collection and nothing else. The reads
  of the clock and the fresh sale id are arguments.
\<close>

record store =
  inventory :: "string \<rightharpoonup> item"
  sales :: "string \<rightharpoonup> sale"

record clock =
  itemSoldDate :: string
  itemUpdatedAt :: string
  newSaleId :: string
  saleSoldDate :: string
  saleCreatedAt :: string

definition recordSale :: "clock \<Rightarrow> sale_event \<Rightarrow> store \<Rightarrow> response \<times> store" where
  "recordSale clk event st =
     (if httpMethod event = ''OPTIONS'' then (Response 200 Empty, st)
      else if httpMethod event \<noteq> ''POST''
      then (Response 405 (Failure ''Method not allowed''), st)
      else case body event of
        Inl msg \<Rightarrow>
          (Response 500 (Failure (if msg = [] then ''Failed to record sale'' else msg)), st)
      | Inr b \<Rightarrow>
          (case (sale_request.inventoryId b, soldPrice b) of
             (Some i, Some price) \<Rightarrow>
               if i = []
               then (Response 400 (Failure ''inventoryId and soldPrice are required''), st)
               else
                 (case inventory st i of
                    None \<Rightarrow> (Response 404 (Failure ''Inventory item not found''), st)
                  | Some it \<Rightarrow>
                      if sold it then (Response 400 (Failure ''Item already sold''), st)
                      else
                        let purchase = Finite (item.purchasePriceCents it);
                            cents = js_round (js_mul (Finite price) (Finite 100));
                            fees = (case actualFees b of
                                      Some f \<Rightarrow> js_round (js_mul (Finite f) (Finite 100))
                                    | None \<Rightarrow>
                                        js_round (js_add (js_mul cents (Finite (fl (13 / 100))))
                                                         (Finite 30)));
                            net = js_sub (js_sub cents purchase) fees;
                            r = (if js_gt purchase (Finite 0)
                                 then parseFloat_toFixed2
                                        (js_mul (js_div net purchase) (Finite 100))
                                 else Finite 0);
                            date1 = (case sale_request.soldDate b of
                                       Some d \<Rightarrow> if d = [] then itemSoldDate clk else d
                                     | None \<Rightarrow> itemSoldDate clk);
                            date2 = (case sale_request.soldDate b of
                                       Some d \<Rightarrow> if d = [] then saleSoldDate clk else d
                                     | None \<Rightarrow> saleSoldDate clk);
                            remark = (case sale_request.notes' b of Some n \<Rightarrow> n | None \<Rightarrow> []);
                            it' = it\<lparr> sold := True,
                                      item.soldDate := Some date1,
                                      item.soldPriceCents := Some cents,
                                      item.ebayFeesCents := Some fees,
                                      item.netProfitCents := Some net,
                                      item.roi := Some r,
                                      saleNotes := Some remark,
                                      updatedAt := Some (itemUpdatedAt clk) \<rparr>;
                            st1 = st\<lparr> inventory := (inventory st)(i \<mapsto> it') \<rparr>;
                            s = \<lparr> sale_id = newSaleId clk,
                                  sale.inventoryId = i,
                                  sale.cardId = item.cardId it,
                                  sale.cardName = item.cardName it,
                                  sale.consoleName = item.consoleName it,
                                  sale.purchaseDate = item.purchaseDate it,
                                  sale.soldDate = date2,
                                  sale.purchasePriceCents = item.purchasePriceCents it,
                                  sale.soldPriceCents = cents,
                                  sale.ebayFeesCents = fees,
                                  sale.netProfitCents = net,
                                  sale.roi = r,
                                  sale.notes' = remark,
                                  sale.createdAt = saleCreatedAt clk \<rparr>;
                            st2 = st1\<lparr> sales := (sales st1)(newSaleId clk \<mapsto> s) \<rparr>
                        in (Response 200 (Recorded s it'), st2))
           | _ \<Rightarrow> (Response 400 (Failure ''inventoryId and soldPrice are required''), st)))"

text \<open>An unsold item, a clock, a store and a request for the scenarios.\<close>

definition exampleItem :: item where
  "exampleItem =
     \<lparr> item_id = ''inv_1'', item.cardId = ''72584'', item.cardName = ''Michael Jordan #57'',
       item.consoleName = ''Basketball Cards 1986 Fleer'', item.genre = ''Basketball Card'',
       item.purchaseDate = ''2026-03-01'', item.purchasePriceCents = 5000,
       condition = ''ungraded'', quantity = 1, item.notes' = [], sold = False,
       item.soldDate = None, item.soldPriceCents = None, item.ebayFeesCents = None,
       item.netProfitCents = None, currentValueCents = 7500,
       item.createdAt = ''2026-03-01T10:00:00.000Z'', item.roi = None, saleNotes = None,
       updatedAt = None \<rparr>"

definition exampleClock :: clock where
  "exampleClock =
     \<lparr> itemSoldDate = ''2026-03-15'', itemUpdatedAt = ''2026-03-15T12:00:00.000Z'',
       newSaleId = ''sale_1'', saleSoldDate = ''2026-03-15'',
       saleCreatedAt = ''2026-03-15T12:00:00.001Z'' \<rparr>"

definition exampleStore :: store where
  "exampleStore = \<lparr> inventory = [''inv_1'' \<mapsto> exampleItem], sales = Map.empty \<rparr>"

definition exampleSaleEvent :: sale_event where
  "exampleSaleEvent =
     \<lparr> httpMethod = ''POST'',
       body = Inr \<lparr> sale_request.inventoryId = Some ''inv_1'', sale_request.soldDate = None,
                    soldPrice = Some 75, actualFees = None, sale_request.notes' = None \<rparr> \<rparr>"

text \<open>The same request without the sale price, which fails the check of the fields.\<close>

definition incompleteSaleEvent :: sale_event where
  "incompleteSaleEvent =
     \<lparr> httpMethod = ''POST'',
       body = Inr \<lparr> sale_request.inventoryId = Some ''inv_1'', sale_request.soldDate = None,
                    soldPrice = None, actualFees = None, sale_request.notes' = None \<rparr> \<rparr>"

text \<open>The item and the sale record that the scenario expects after the sale.\<close>

definition exampleSoldItem :: item where
  "exampleSoldItem =
     exampleItem\<lparr> sold := True, item.soldDate := Some ''2026-03-15'',
                  item.soldPriceCents := Some (Finite 7500),
                  item.ebayFeesCents := Some (Finite 1005),
                  item.netProfitCents := Some (Finite 1495),
                  item.roi := Some (Finite (4208050901824307 / 140737488355328)),
                  saleNotes := Some [], updatedAt := Some ''2026-03-15T12:00:00.000Z'' \<rparr>"

definition exampleSale :: sale where
  "exampleSale =
     \<lparr> sale_id = ''sale_1'', sale.inventoryId = ''inv_1'', sale.cardId = ''72584'',
       sale.cardName = ''Michael Jordan #57'',
       sale.consoleName = ''Basketball Cards 1986 Fleer'',
       sale.purchaseDate = ''2026-03-01'', sale.soldDate = ''2026-03-15'',
       sale.purchasePriceCents = 5000, sale.soldPriceCents = Finite 7500,
       sale.ebayFeesCents = Finite 1005, sale.netProfitCents = Finite 1495,
       sale.roi = Finite (4208050901824307 / 140737488355328), sale.notes' = [],
       sale.createdAt = ''2026-03-15T12:00:00.001Z'' \<rparr>"

definition exampleSoldStore :: store where
  "exampleSoldStore =
     \<lparr> inventory = [''inv_1'' \<mapsto> exampleSoldItem], sales = [''sale_1'' \<mapsto> exampleSale] \<rparr>"


section \<open>Rounding to binary64\<close>

lemma expo_bounds:
  assumes "0 < x"
  shows "2 powi expo x \<le> x \<and> x < 2 powi (expo x + 1)"
proof (cases "1 \<le> x")
  case True
  define n where "n = \<lfloor>x\<rfloor>"
  have n1: "1 \<le> n" using True by (simp add: n_def)
  then have npos: "0 < n" by simp
  have k1: "1 \<le> bitlen n" using npos by (simp add: bitlen_alt_def)
  have e: "expo x = bitlen n - 1" using True by (simp add: expo_def n_def)
  from bitlen_bounds[OF npos]
  have lo: "(2::int) ^ nat (bitlen n - 1) \<le> n" and hi: "n < (2::int) ^ nat (bitlen n)" by auto
  have "(2::rat) powi (bitlen n - 1) = of_int (2 ^ nat (bitlen n - 1))"
    using k1 by (simp add: power_int_def)
  also have "\<dots> \<le> of_int n" using lo by (simp only: of_int_le_iff)
  also have "\<dots> \<le> x" by (simp add: n_def)
  finally have A: "2 powi expo x \<le> x" by (simp add: e)
  have "n + 1 \<le> 2 ^ nat (bitlen n)" using hi by simp
  then have "(of_int (n + 1) :: rat) \<le> of_int (2 ^ nat (bitlen n))" by (simp only: of_int_le_iff)
  moreover have "x < of_int (n + 1)" unfolding n_def by linarith
  moreover have "(2::rat) powi (bitlen n) = of_int (2 ^ nat (bitlen n))"
    using k1 by (simp add: power_int_def)
  ultimately have B: "x < 2 powi (expo x + 1)" by (simp add: e)
  show ?thesis using A B by simp
next
  case False
  define y where "y = 1 / x"
  have y1: "1 < y" using False assms by (simp add: y_def)
  define m where "m = \<lceil>y\<rceil> - 1"
  have mpos: "0 < m" using y1 by (simp add: m_def less_ceiling_iff)
  have k1: "1 \<le> bitlen m" using mpos by (simp add: bitlen_alt_def)
  have e: "expo x = - bitlen m" using False by (simp add: expo_def m_def y_def)
  from bitlen_bounds[OF mpos]
  have lo: "(2::int) ^ nat (bitlen m - 1) \<le> m" and hi: "m < (2::int) ^ nat (bitlen m)" by auto
  have ylt: "of_int m < y" using ceiling_correct[of y] by (simp add: m_def)
  have yle: "y \<le> of_int (m + 1)" by (simp add: m_def)
  have "m + 1 \<le> 2 ^ nat (bitlen m)" using hi by simp
  then have "(of_int (m + 1) :: rat) \<le> of_int (2 ^ nat (bitlen m))" by (simp only: of_int_le_iff)
  with yle have "y \<le> 2 ^ nat (bitlen m)" by simp
  then have "1 / x \<le> 2 ^ nat (bitlen m)" by (simp add: y_def)
  then have "1 \<le> 2 ^ nat (bitlen m) * x" using assms by (simp add: field_simps)
  then have "1 / 2 ^ nat (bitlen m) \<le> x" by (simp add: field_simps)
  moreover have "(2::rat) powi (- bitlen m) = 1 / 2 ^ nat (bitlen m)"
    using k1 by (simp add: power_int_def field_simps)
  ultimately have A: "2 powi expo x \<le> x" by (simp add: e)
  have "(of_int (2 ^ nat (bitlen m - 1)) :: rat) \<le> of_int m" using lo by (simp only: of_int_le_iff)
  then have "(2::rat) ^ nat (bitlen m - 1) \<le> of_int m" by simp
  with ylt have "2 ^ nat (bitlen m - 1) < y" by linarith
  then have "2 ^ nat (bitlen m - 1) < 1 / x" by (simp add: y_def)
  then have "2 ^ nat (bitlen m - 1) * x < 1" using assms by (simp add: field_simps)
  then have "x < 1 / 2 ^ nat (bitlen m - 1)" by (simp add: field_simps)
  moreover have "(2::rat) powi (- bitlen m + 1) = 1 / 2 ^ nat (bitlen m - 1)"
  proof -
    have "- bitlen m + 1 = - (bitlen m - 1)" by simp
    then have "(2::rat) powi (- bitlen m + 1) = inverse (2 powi (bitlen m - 1))"
      by (simp only: power_int_minus)
    also have "\<dots> = 1 / 2 ^ nat (bitlen m - 1)"
      using k1 by (simp add: power_int_def field_simps)
    finally show ?thesis .
  qed
  ultimately have B: "x < 2 powi (expo x + 1)" by (simp add: e)
  show ?thesis using A B by simp
qed

lemma two_powi_less_cancel:
  assumes "(2::rat) powi a < 2 powi b"
  shows "a < b"
proof (rule ccontr)
  assume "\<not> a < b"
  then have "b \<le> a" by simp
  then have "(2::rat) powi b \<le> 2 powi a" by (intro power_int_increasing) simp_all
  with assms show False by simp
qed

lemma expo_unique:
  assumes "0 < x" "2 powi e \<le> x" "x < 2 powi (e + 1)"
  shows "expo x = e"
proof -
  from expo_bounds[OF assms(1)]
  have a: "2 powi expo x \<le> x" and b: "x < 2 powi (expo x + 1)" by auto
  have "(2::rat) powi e < 2 powi (expo x + 1)" using assms(2) b by simp
  then have "e < expo x + 1" by (rule two_powi_less_cancel)
  moreover have "(2::rat) powi expo x < 2 powi (e + 1)" using a assms(3) by simp
  then have "expo x < e + 1" by (rule two_powi_less_cancel)
  ultimately show ?thesis by simp
qed

lemma round_half_even_int: "round_half_even (of_int n) = n"
  by (simp add: round_half_even_def)

lemma round_half_even_near: "\<bar>of_int (round_half_even m) - m\<bar> \<le> 1 / 2"
proof -
  have "of_int \<lfloor>m\<rfloor> \<le> m" "m < of_int \<lfloor>m\<rfloor> + 1" by linarith+
  then show ?thesis
    by (auto simp: round_half_even_def Let_def abs_le_iff)
qed

lemma round_half_even_mono_floor: "\<lfloor>m\<rfloor> \<le> round_half_even m"
  by (auto simp: round_half_even_def Let_def)

lemma fl_zero: "fl 0 = 0"
  by (simp add: fl_def)

lemma fl_minus: "fl (- x) = - fl x"
  by (simp add: fl_def Let_def sgn_minus)

lemma mantissa_ge:
  assumes "0 < x"
  shows "2 ^ 52 \<le> x / 2 powi (expo x - 52) \<and> x / 2 powi (expo x - 52) < 2 ^ 53"
proof -
  from expo_bounds[OF assms]
  have a: "2 powi expo x \<le> x" and b: "x < 2 powi (expo x + 1)" by auto
  have u: "(0::rat) < 2 powi (expo x - 52)" by simp
  have e1: "(2::rat) powi expo x = 2 ^ 52 * 2 powi (expo x - 52)"
    by (simp add: power_int_diff)
  have e2: "(2::rat) powi (expo x + 1) = 2 ^ 53 * 2 powi (expo x - 52)"
    by (simp add: power_int_diff power_int_add)
  have "2 ^ 52 * 2 powi (expo x - 52) \<le> x" using a e1 by simp
  then have A: "2 ^ 52 \<le> x / 2 powi (expo x - 52)" using u by (simp add: pos_le_divide_eq)
  have "x < 2 ^ 53 * 2 powi (expo x - 52)" using b e2 by simp
  then have B: "x / 2 powi (expo x - 52) < 2 ^ 53" using u by (simp add: pos_divide_less_eq)
  show ?thesis using A B by simp
qed

lemma fl_pos_eq:
  assumes "0 < x"
  shows "fl x = of_int (round_half_even (x / 2 powi (expo x - 52))) * 2 powi (expo x - 52)"
  using assms by (simp add: fl_def Let_def)

lemma fl_pos:
  assumes "0 < x"
  shows "0 < fl x"
proof -
  from mantissa_ge[OF assms] have "of_int (2 ^ 52) \<le> x / 2 powi (expo x - 52)" by simp
  then have "(2::int) ^ 52 \<le> \<lfloor>x / 2 powi (expo x - 52)\<rfloor>" by (simp only: le_floor_iff)
  moreover have "(0::int) < 2 ^ 52" by simp
  ultimately have "0 < round_half_even (x / 2 powi (expo x - 52))"
    using round_half_even_mono_floor[of "x / 2 powi (expo x - 52)"] by linarith
  then show ?thesis by (simp add: fl_pos_eq[OF assms])
qed

lemma fl_error:
  assumes "0 < x"
  shows "\<bar>fl x - x\<bar> \<le> x / 2 ^ 53"
proof -
  define u :: rat where "u = 2 powi (expo x - 52)"
  define m where "m = x / u"
  have u: "0 < u" by (simp add: u_def)
  have xm: "x = m * u" using u by (simp add: m_def)
  have f: "fl x = of_int (round_half_even m) * u"
    using fl_pos_eq[OF assms] by (simp add: u_def m_def)
  have "\<bar>fl x - x\<bar> = \<bar>of_int (round_half_even m) - m\<bar> * u"
    using u by (simp add: f xm[symmetric] m_def field_simps abs_mult flip: abs_mult)
  also have "\<dots> \<le> (1 / 2) * u"
    using round_half_even_near[of m] u by (intro mult_right_mono) simp_all
  also have "\<dots> \<le> x / 2 ^ 53"
  proof -
    from mantissa_ge[OF assms] have "2 ^ 52 \<le> m" by (simp add: m_def u_def)
    then have "2 ^ 52 * u \<le> m * u" using u by (intro mult_right_mono) simp_all
    then have "2 ^ 52 * u \<le> x" using xm by simp
    then show ?thesis by (simp add: field_simps)
  qed
  finally show ?thesis .
qed

lemma fl_of_int:
  assumes "\<bar>n\<bar> < 2 ^ 53"
  shows "fl (of_int n) = of_int n"
proof -
  have pos: "fl (of_int k) = of_int k" if "0 < k" "k < 2 ^ 53" for k :: int
  proof -
    define x :: rat where "x = of_int k"
    have xpos: "0 < x" using that by (simp add: x_def)
    from expo_bounds[OF xpos] have "2 powi expo x \<le> x" by simp
    moreover have "x < 2 powi 53"
    proof -
      have "(of_int k :: rat) < of_int (2 ^ 53)" using that(2) by (simp only: of_int_less_iff)
      then show ?thesis by (simp add: x_def)
    qed
    ultimately have "(2::rat) powi expo x < 2 powi 53" by simp
    then have "expo x < 53" by (rule two_powi_less_cancel)
    then have le: "0 \<le> 52 - expo x" by simp
    define j where "j = nat (52 - expo x)"
    have u: "(2::rat) powi (expo x - 52) = 1 / 2 ^ j"
    proof -
      have "expo x - 52 = - (52 - expo x)" by simp
      then have "(2::rat) powi (expo x - 52) = inverse (2 powi (52 - expo x))"
        by (simp only: power_int_minus)
      also have "\<dots> = 1 / 2 ^ j" using le by (simp add: power_int_def j_def field_simps)
      finally show ?thesis .
    qed
    have m: "x / (1 / 2 ^ j) = of_int (k * 2 ^ j)"
      by (simp add: x_def)
    have "fl x = of_int (round_half_even (of_int (k * 2 ^ j))) * (1 / 2 ^ j)"
      using fl_pos_eq[OF xpos] by (simp only: m u)
    then have "fl x = of_int (k * 2 ^ j) * (1 / 2 ^ j)"
      by (simp only: round_half_even_int)
    then show ?thesis by (simp add: x_def)
  qed
  consider "n = 0" | "0 < n" | "n < 0" by linarith
  then show ?thesis
  proof cases
    case 1
    then show ?thesis by (simp add: fl_zero)
  next
    case 2
    then show ?thesis using pos[of n] assms by simp
  next
    case 3
    then have "fl (of_int (- n)) = of_int (- n)" using pos[of "- n"] assms by simp
    then show ?thesis using fl_minus[of "of_int n"] by simp
  qed
qed

lemma fl_nonneg:
  assumes "0 \<le> x"
  shows "0 \<le> fl x"
proof (cases "x = 0")
  case True
  then show ?thesis by (simp add: fl_zero)
next
  case False
  with assms have "0 < x" by simp
  then have "0 < fl x" by (rule fl_pos)
  then show ?thesis by simp
qed

lemma fl_abs_error:
  assumes "0 \<le> x" "x \<le> B"
  shows "\<bar>fl x - x\<bar> \<le> B / 2 ^ 53"
proof (cases "x = 0")
  case True
  with assms show ?thesis by (simp add: fl_zero)
next
  case False
  with assms have "0 < x" by simp
  then have "\<bar>fl x - x\<bar> \<le> x / 2 ^ 53" by (rule fl_error)
  also have "\<dots> \<le> B / 2 ^ 53" using assms(2) by (simp add: divide_right_mono)
  finally show ?thesis .
qed

lemma js_add_int:
  assumes "\<bar>a + b\<bar> < 2 ^ 53"
  shows "js_add (Finite (of_int a)) (Finite (of_int b)) = Finite (of_int (a + b))"
  using fl_of_int[OF assms] by simp

lemma js_sub_int:
  assumes "\<bar>a - b\<bar> < 2 ^ 53"
  shows "js_sub (Finite (of_int a)) (Finite (of_int b)) = Finite (of_int (a - b))"
  using fl_of_int[OF assms] by simp

lemma js_mul_int:
  assumes "\<bar>a * b\<bar> < 2 ^ 53"
  shows "js_mul (Finite (of_int a)) (Finite (of_int b)) = Finite (of_int (a * b))"
  using fl_of_int[OF assms] by simp

lemma fl_13_100: "fl (13 / 100) = 1170935903116329 / 9007199254740992"
  by code_simp

lemma fl_3_10: "fl (3 / 10) = 5404319552844595 / 18014398509481984"
  by code_simp

lemma calculateEbayFees_unrounded:
  "calculateEbayFees sale DEFAULT_EBAY_FEE_PERCENT DEFAULT_EBAY_TRANSACTION_FEE_CENTS =
     js_round (totalFeesCentsUnrounded sale)"
  by (simp add: calculateEbayFees_def totalFeesCentsUnrounded_def Let_def)

lemma totalFeesCentsUnrounded_error:
  fixes s :: int
  assumes "0 \<le> s" "s < 2 ^ 40"
  shows "\<exists>e. totalFeesCentsUnrounded (Finite (of_int s)) = Finite e
              \<and> \<bar>e - (13 * of_int s / 100 + 30)\<bar> \<le> 1 / 500"
proof -
  define S :: rat where "S = of_int s"
  define A where "A = S / 100"
  define a where "a = fl A"
  define k :: rat where "k = 1170935903116329 / 9007199254740992"
  define t :: rat where "t = 5404319552844595 / 18014398509481984"
  define P where "P = a * k"
  define c where "c = fl P"
  define Q where "Q = c + t"
  define d where "d = fl Q"
  define R where "R = d * 100"
  define e where "e = fl R"
  have e_eq: "totalFeesCentsUnrounded (Finite (of_int s)) = Finite e"
    by (simp add: totalFeesCentsUnrounded_def
        DEFAULT_EBAY_FEE_PERCENT_def DEFAULT_EBAY_TRANSACTION_FEE_CENTS_def
        fl_13_100 fl_3_10 e_def R_def d_def Q_def c_def P_def a_def A_def S_def k_def t_def)
  have S0: "0 \<le> S" using assms(1) by (simp add: S_def)
  have "(of_int s :: rat) < of_int (2 ^ 40)" using assms(2) by (simp only: of_int_less_iff)
  then have S1: "S < 1099511627776" by (simp add: S_def)
  have A0: "0 \<le> A" using S0 by (simp add: A_def)
  have A1: "A \<le> 17179869184" using S1 by (simp add: A_def)
  have a0: "0 \<le> a" using A0 by (simp add: a_def fl_nonneg)
  have "\<bar>a - A\<bar> \<le> 17179869184 / 2 ^ 53" unfolding a_def by (rule fl_abs_error[OF A0 A1])
  then have ea: "\<bar>a - A\<bar> \<le> 1 / 524288" by simp
  have P0: "0 \<le> P" using a0 by (simp add: P_def k_def)
  have P1: "P \<le> 8589934592" using ea A1 unfolding P_def k_def by linarith
  have c0: "0 \<le> c" using P0 by (simp add: c_def fl_nonneg)
  have "\<bar>c - P\<bar> \<le> 8589934592 / 2 ^ 53" unfolding c_def by (rule fl_abs_error[OF P0 P1])
  then have ec: "\<bar>c - P\<bar> \<le> 1 / 1048576" by simp
  have Q0: "0 \<le> Q" using c0 by (simp add: Q_def t_def)
  have Q1: "Q \<le> 34359738368" using ec P1 unfolding Q_def t_def by linarith
  have d0: "0 \<le> d" using Q0 by (simp add: d_def fl_nonneg)
  have "\<bar>d - Q\<bar> \<le> 34359738368 / 2 ^ 53" unfolding d_def by (rule fl_abs_error[OF Q0 Q1])
  then have ed: "\<bar>d - Q\<bar> \<le> 1 / 262144" by simp
  have R0: "0 \<le> R" using d0 by (simp add: R_def)
  have R1: "R \<le> 8796093022208" using ed Q1 unfolding R_def by linarith
  have "\<bar>e - R\<bar> \<le> 8796093022208 / 2 ^ 53" unfolding e_def by (rule fl_abs_error[OF R0 R1])
  then have ee: "\<bar>e - R\<bar> \<le> 1 / 1024" by simp
  have "\<bar>e - (13 * S / 100 + 30)\<bar> \<le> 1 / 500"
    using ee ed ec ea A0 A1
    unfolding R_def Q_def P_def A_def k_def t_def by linarith
  then have "\<bar>e - (13 * of_int s / 100 + 30)\<bar> \<le> 1 / 500" by (simp add: S_def)
  with e_eq show ?thesis by blast
qed

lemma calculateEbayFees_nearest:
  fixes s :: int
  assumes "0 \<le> s" "s < 2 ^ 40"
  shows "\<exists>f::int. calculateEbayFees (Finite (of_int s)) DEFAULT_EBAY_FEE_PERCENT
                      DEFAULT_EBAY_TRANSACTION_FEE_CENTS = Finite (of_int f)
           \<and> \<bar>of_int f - (13 * of_int s / 100 + 30 :: rat)\<bar> \<le> 1 / 2
           \<and> 0 \<le> f \<and> f < 2 ^ 38"
proof -
  define E :: rat where "E = 13 * of_int s / 100 + 30"
  from totalFeesCentsUnrounded_error[OF assms] obtain e where
    e: "totalFeesCentsUnrounded (Finite (of_int s)) = Finite e"
    and err: "\<bar>e - E\<bar> \<le> 1 / 500"
    unfolding E_def by blast
  define f where "f = \<lfloor>e + 1 / 2\<rfloor>"
  have fe: "calculateEbayFees (Finite (of_int s)) DEFAULT_EBAY_FEE_PERCENT
              DEFAULT_EBAY_TRANSACTION_FEE_CENTS = Finite (of_int f)"
    by (simp add: calculateEbayFees_unrounded e f_def)
  have f1: "of_int f \<le> e + 1 / 2" and f2: "e + 1 / 2 < of_int f + 1"
    unfolding f_def by linarith+
  have N: "100 * E = of_int (13 * s + 3000)" by (simp add: E_def)
  have "\<bar>100 * of_int f - 100 * E\<bar> < 51" using err f1 f2 by linarith
  then have "\<bar>(of_int (100 * f - (13 * s + 3000)) :: rat)\<bar> < of_int 51"
    by (simp add: N)
  then have "\<bar>100 * f - (13 * s + 3000)\<bar> < 51"
    by (simp only: of_int_less_iff flip: of_int_abs)
  then have "\<bar>100 * f - (13 * s + 3000)\<bar> \<le> 50" by simp
  then have "\<bar>(of_int (100 * f - (13 * s + 3000)) :: rat)\<bar> \<le> of_int 50"
    by (simp only: of_int_le_iff flip: of_int_abs)
  then have "\<bar>100 * of_int f - 100 * E\<bar> \<le> 50" by (simp add: N)
  then have near: "\<bar>of_int f - E\<bar> \<le> 1 / 2" by linarith
  have "(of_int s :: rat) < of_int (2 ^ 40)" using assms(2) by (simp only: of_int_less_iff)
  then have S1: "(of_int s :: rat) < 1099511627776" by simp
  have S0: "(0::rat) \<le> of_int s" using assms(1) by simp
  have "(of_int f :: rat) < 274877906944" using near S1 unfolding E_def by linarith
  then have "(of_int f :: rat) < of_int (2 ^ 38)" by simp
  then have fb: "f < 2 ^ 38" by (simp only: of_int_less_iff)
  have "(-1 :: rat) < of_int f" using near S0 unfolding E_def by linarith
  then have "(of_int (-1) :: rat) < of_int f" by simp
  then have "-1 < f" by (simp only: of_int_less_iff)
  then have f0: "0 \<le> f" by simp
  show ?thesis using fe near f0 fb by (auto simp: E_def)
qed

lemma round_half_even_eqI:
  assumes "\<bar>m - of_int n\<bar> < 1 / 2"
  shows "round_half_even m = n"
proof (cases "of_int n \<le> m")
  case True
  with assms have "\<lfloor>m\<rfloor> = n" by (intro floor_unique) linarith+
  with assms True show ?thesis by (simp add: round_half_even_def Let_def; linarith?)
next
  case False
  with assms have f: "\<lfloor>m\<rfloor> = n - 1" by (intro floor_unique; simp; linarith?)
  have "1 / 2 < m - of_int (n - 1)" using assms False by (simp; linarith?)
  with f show ?thesis by (simp add: round_half_even_def Let_def; linarith?)
qed

lemma round_half_even_tieI:
  assumes "\<bar>m - of_int n\<bar> = 1 / 2" "even n"
  shows "round_half_even m = n"
proof (cases "of_int n \<le> m")
  case True
  with assms have m: "m = of_int n + 1 / 2" by linarith
  then have "\<lfloor>m\<rfloor> = n" by (intro floor_unique) simp_all
  with m assms(2) show ?thesis by (simp add: round_half_even_def Let_def)
next
  case False
  with assms have m: "m = of_int (n - 1) + 1 / 2" by (simp; linarith?)
  then have f: "\<lfloor>m\<rfloor> = n - 1" by (intro floor_unique) simp_all
  have "m - of_int (n - 1) = 1 / 2" using m by simp
  with f assms(2) show ?thesis by (simp add: round_half_even_def Let_def)
qed

lemma fl_certificate:
  assumes "0 < x" "2 powi e \<le> x" "x < 2 powi (e + 1)"
    and "\<bar>x / 2 powi (e - 52) - of_int n\<bar> < 1 / 2"
  shows "fl x = of_int n * 2 powi (e - 52)"
proof -
  have "expo x = e" using assms(1-3) by (rule expo_unique)
  with fl_pos_eq[OF assms(1)] round_half_even_eqI[OF assms(4)] show ?thesis by simp
qed

lemma fl_tie_certificate:
  assumes "0 < x" "2 powi e \<le> x" "x < 2 powi (e + 1)"
    and "\<bar>x / 2 powi (e - 52) - of_int n\<bar> = 1 / 2" "even n"
  shows "fl x = of_int n * 2 powi (e - 52)"
proof -
  have "expo x = e" using assms(1-3) by (rule expo_unique)
  with fl_pos_eq[OF assms(1)] round_half_even_tieI[OF assms(4,5)] show ?thesis by simp
qed

lemma fl_numeral:
  assumes "(numeral k :: int) < 2 ^ 53"
  shows "fl (numeral k) = numeral k"
  using fl_of_int[of "numeral k"] assms by simp

lemma fl_one: "fl 1 = 1"
  using fl_of_int[of 1] by simp

lemma floor_rat_numeral_div:
  "\<lfloor>numeral a / numeral b :: rat\<rfloor> = numeral a div numeral b"
  using floor_divide_of_int_eq[of "numeral a" "numeral b", where ?'a = rat] by simp

lemma floor_rat_minus_numeral_div:
  "\<lfloor>- (numeral a / numeral b) :: rat\<rfloor> = - numeral a div numeral b"
  using floor_divide_of_int_eq[of "- numeral a" "numeral b", where ?'a = rat] by simp

lemma floor_rat_one_div:
  "\<lfloor>1 / numeral b :: rat\<rfloor> = 1 div numeral b"
  using floor_divide_of_int_eq[of 1 "numeral b", where ?'a = rat] by simp

lemmas floor_rat = floor_rat_numeral_div floor_rat_minus_numeral_div floor_rat_one_div

section \<open>Roundings of the scenarios\<close>

lemma fl_value_1: "fl (17 / 800) = 6124895493223875 / 288230376151711744"
  using fl_certificate[of "17 / 800" "- 6" 6124895493223875] by simp

lemma fl_value_2: "fl (9 / 200) = 3242591731706757 / 72057594037927936"
  using fl_certificate[of "9 / 200" "- 5" 6485183463413514] by simp

lemma fl_value_3: "fl (87 / 1600) = 7836263351624663 / 144115188075855872"
  using fl_certificate[of "87 / 1600" "- 5" 7836263351624663] by simp

lemma fl_value_4: "fl (13 / 100) = 1170935903116329 / 9007199254740992"
  using fl_certificate[of "13 / 100" "- 3" 4683743612465316] by simp

lemma fl_value_5: "fl (1170935903116329 / 9007199254740992) = 1170935903116329 / 9007199254740992"
  using fl_certificate[of "1170935903116329 / 9007199254740992" "- 3" 4683743612465316] by simp

lemma fl_value_6: "fl (199 / 1000) = 3584865303386915 / 18014398509481984"
  using fl_certificate[of "199 / 1000" "- 3" 7169730606773830] by simp

lemma fl_value_7: "fl (299 / 1000) = 5386305154335113 / 18014398509481984"
  using fl_certificate[of "299 / 1000" "- 2" 5386305154335113] by simp

lemma fl_value_8: "fl (5404319552844595 / 18014398509481984) = 5404319552844595 / 18014398509481984"
  using fl_certificate[of "5404319552844595 / 18014398509481984" "- 2" 5404319552844595] by simp

lemma fl_value_9: "fl (3 / 10) = 5404319552844595 / 18014398509481984"
  using fl_certificate[of "3 / 10" "- 2" 5404319552844595] by simp

lemma fl_value_10: "fl (23 / 40) = 2589569785738035 / 4503599627370496"
  using fl_certificate[of "23 / 40" "- 1" 5179139571476070] by simp

lemma fl_value_11: "fl (4 / 5) = 3602879701896397 / 4503599627370496"
  using fl_certificate[of "4 / 5" "- 1" 7205759403792794] by simp

lemma fl_value_12: "fl (2047 / 2500) = 1843773687445481 / 2251799813685248"
  using fl_certificate[of "2047 / 2500" "- 1" 7375094749781924] by simp

lemma fl_value_13: "fl (5854679515581645 / 4503599627370496) = 5854679515581645 / 4503599627370496"
  using fl_certificate[of "5854679515581645 / 4503599627370496" "0" 5854679515581645] by simp

lemma fl_value_14: "fl (28823037615171175 / 18014398509481984) = 3602879701896397 / 2251799813685248"
  using fl_certificate[of "28823037615171175 / 18014398509481984" "0" 7205759403792794] by simp

lemma fl_value_15: "fl (153122387330596875 / 72057594037927936) = 17 / 8"
  using fl_certificate[of "153122387330596875 / 72057594037927936" "1" 4785074604081152] by simp

lemma fl_value_16: "fl (213 / 100) = 2398166801574789 / 1125899906842624"
  using fl_certificate[of "213 / 100" "1" 4796333603149578] by simp

lemma fl_value_17: "fl (429 / 200) = 4830110600354857 / 2251799813685248"
  using fl_certificate[of "429 / 200" "1" 4830110600354857] by simp

lemma fl_value_18: "fl (38640884802838857 / 18014398509481984) = 4830110600354857 / 2251799813685248"
  using fl_certificate[of "38640884802838857 / 18014398509481984" "1" 4830110600354857] by simp

lemma fl_value_19: "fl (44045204355683451 / 18014398509481984) = 5505650544460431 / 2251799813685248"
  using fl_certificate[of "44045204355683451 / 18014398509481984" "1" 5505650544460431] by simp

lemma fl_value_20: "fl (81064793292668925 / 18014398509481984) = 9 / 2"
  using fl_certificate[of "81064793292668925 / 18014398509481984" "2" 5066549580791808] by simp

lemma fl_value_21: "fl (9 / 2) = 9 / 2"
  using fl_certificate[of "9 / 2" "2" 5066549580791808] by simp

lemma fl_value_22: "fl (195906583790616575 / 36028797018963968) = 87 / 16"
  using fl_certificate[of "195906583790616575 / 36028797018963968" "2" 6122080743456768] by simp

lemma fl_value_23: "fl (136 / 25) = 6124895493223875 / 1125899906842624"
  using fl_certificate[of "136 / 25" "2" 6124895493223875] by simp

lemma fl_value_24: "fl (29273397577908225 / 4503599627370496) = 13 / 2"
  using fl_certificate[of "29273397577908225 / 4503599627370496" "2" 7318349394477056] by simp

lemma fl_value_25: "fl (122497909864477491 / 18014398509481984) = 7656119366529843 / 1125899906842624"
  using fl_certificate[of "122497909864477491 / 18014398509481984" "2" 7656119366529843] by simp

lemma fl_value_26: "fl (87820192733724675 / 9007199254740992) = 39 / 4"
  using fl_certificate[of "87820192733724675 / 9007199254740992" "3" 5488762045857792] by simp

lemma fl_value_27: "fl (181044705020293939 / 18014398509481984) = 2828823515942093 / 281474976710656"
  using fl_certificate[of "181044705020293939 / 18014398509481984" "3" 5657647031884186] by simp

lemma fl_value_28: "fl (29273397577908225 / 2251799813685248) = 13"
  using fl_certificate[of "29273397577908225 / 2251799813685248" "3" 7318349394477056] by simp

lemma fl_value_29: "fl (239591500176110387 / 18014398509481984) = 3743617190251725 / 281474976710656"
  using fl_certificate[of "239591500176110387 / 18014398509481984" "3" 7487234380503450] by simp

lemma fl_value_30: "fl (33 / 2) = 33 / 2"
  using fl_certificate[of "33 / 2" "4" 4644337115725824] by simp

lemma fl_value_31: "fl (199 / 10) = 2800676018271027 / 140737488355328"
  using fl_certificate[of "199 / 10" "4" 5601352036542054] by simp

lemma fl_value_32: "fl (89621632584672875 / 4503599627370496) = 5601352036542055 / 281474976710656"
  using fl_certificate[of "89621632584672875 / 4503599627370496" "4" 5601352036542055] by simp

lemma fl_value_33: "fl (29273397577908225 / 1125899906842624) = 26"
  using fl_certificate[of "29273397577908225 / 1125899906842624" "4" 7318349394477056] by simp

lemma fl_value_34: "fl (473778680799376179 / 18014398509481984) = 7402791887490253 / 281474976710656"
  using fl_certificate[of "473778680799376179 / 18014398509481984" "4" 7402791887490253] by simp

lemma fl_value_35: "fl (134657628858377825 / 4503599627370496) = 4208050901824307 / 140737488355328"
  using fl_certificate[of "134657628858377825 / 4503599627370496" "4" 8416101803648614] by simp

lemma fl_value_36: "fl (299 / 10) = 4208050901824307 / 140737488355328"
  using fl_certificate[of "299 / 10" "4" 8416101803648614] by simp

lemma fl_value_37: "fl (64739244643450875 / 1125899906842624) = 8092405580431359 / 140737488355328"
  using fl_certificate[of "64739244643450875 / 1125899906842624" "5" 8092405580431359] by simp

lemma fl_value_38: "fl (115 / 2) = 115 / 2"
  using fl_certificate[of "115 / 2" "5" 8092405580431360] by simp

lemma fl_value_39: "fl (46094342186137025 / 562949953421312) = 720224096658391 / 8796093022208"
  using fl_certificate[of "46094342186137025 / 562949953421312" "6" 5761792773267128] by simp

lemma fl_value_40: "fl (2047 / 25) = 720224096658391 / 8796093022208"
  using fl_certificate[of "2047 / 25" "6" 5761792773267128] by simp

lemma fl_value_41: "fl (90071992547409925 / 562949953421312) = 160"
  using fl_certificate[of "90071992547409925 / 562949953421312" "7" 5629499534213120] by simp

lemma fl_value_42: "fl (425 / 2) = 425 / 2"
  using fl_certificate[of "425 / 2" "7" 7476679068876800] by simp

lemma fl_value_43: "fl (429 / 2) = 429 / 2"
  using fl_certificate[of "429 / 2" "7" 7547047813054464] by simp

lemma fl_value_44: "fl (120752765008871425 / 562949953421312) = 429 / 2"
  using fl_certificate[of "120752765008871425 / 562949953421312" "7" 7547047813054464] by simp

lemma fl_value_45: "fl (137641263611510775 / 562949953421312) = 8602578975719423 / 35184372088832"
  using fl_certificate[of "137641263611510775 / 562949953421312" "7" 8602578975719423] by simp

lemma fl_value_46: "fl (2175 / 4) = 2175 / 4"
  using fl_certificate[of "2175 / 4" "9" 4782875580825600] by simp

lemma fl_value_47: "fl (191402984163246075 / 281474976710656) = 680"
  using fl_certificate[of "191402984163246075 / 281474976710656" "9" 5981343255101440] by simp

lemma fl_value_48: "fl (450359962737049625 / 562949953421312) = 800"
  using fl_certificate[of "450359962737049625 / 562949953421312" "9" 7036874417766400] by simp

lemma fl_value_49: "fl (2195504818343116875 / 2251799813685248) = 975"
  using fl_certificate[of "2195504818343116875 / 2251799813685248" "9" 8576190696652800] by simp

lemma fl_value_50: "fl (70720587898552325 / 70368744177664) = 8840073487319041 / 8796093022208"
  using fl_certificate[of "70720587898552325 / 70368744177664" "9" 8840073487319041] by simp

lemma fl_value_51: "fl (93590429756293125 / 70368744177664) = 1330"
  using fl_certificate[of "93590429756293125 / 70368744177664" "10" 5849401859768320] by simp

lemma fl_value_52: "fl (70016900456775675 / 35184372088832) = 8752112557096959 / 4398046511104"
  using fl_certificate[of "70016900456775675 / 35184372088832" "10" 8752112557096959] by simp

lemma fl_value_53: "fl (140033800913551375 / 70368744177664) = 8752112557096961 / 4398046511104"
  using fl_certificate[of "140033800913551375 / 70368744177664" "10" 8752112557096961] by simp

lemma fl_value_54: "fl (185069797187256325 / 70368744177664) = 2630"
  using fl_certificate[of "185069797187256325 / 70368744177664" "11" 5783431162101760] by simp

lemma fl_value_55: "fl (2251799813685248125 / 562949953421312) = 4000"
  using fl_certificate[of "2251799813685248125 / 562949953421312" "11" 8796093022208000] by simp

lemma fl_value_56: "fl (202310139510783975 / 35184372088832) = 6322191859711999 / 1099511627776"
  using fl_certificate[of "202310139510783975 / 35184372088832" "12" 6322191859711999] by simp

lemma fl_value_57: "fl (2251799813685248125 / 281474976710656) = 8000"
  using fl_certificate[of "2251799813685248125 / 281474976710656" "12" 8796093022208000] by simp

lemma fl_value_58: "fl (18005602416459775 / 2199023255552) = 8188"
  using fl_tie_certificate[of "18005602416459775 / 2199023255552" "12" 9002801208229888] by simp

lemma fl_value_59: "fl (2251799813685248125 / 140737488355328) = 16000"
  using fl_certificate[of "2251799813685248125 / 140737488355328" "13" 8796093022208000] by simp

lemmas fl_values =
  fl_value_1 fl_value_2 fl_value_3 fl_value_4 fl_value_5 fl_value_6
  fl_value_7 fl_value_8 fl_value_9 fl_value_10 fl_value_11 fl_value_12
  fl_value_13 fl_value_14 fl_value_15 fl_value_16 fl_value_17 fl_value_18
  fl_value_19 fl_value_20 fl_value_21 fl_value_22 fl_value_23 fl_value_24
  fl_value_25 fl_value_26 fl_value_27 fl_value_28 fl_value_29 fl_value_30
  fl_value_31 fl_value_32 fl_value_33 fl_value_34 fl_value_35 fl_value_36
  fl_value_37 fl_value_38 fl_value_39 fl_value_40 fl_value_41 fl_value_42
  fl_value_43 fl_value_44 fl_value_45 fl_value_46 fl_value_47 fl_value_48
  fl_value_49 fl_value_50 fl_value_51 fl_value_52 fl_value_53 fl_value_54
  fl_value_55 fl_value_56 fl_value_57 fl_value_58 fl_value_59

section \<open>The calculator\<close>

lemmas calc_eval =
  calculateProfit_def calculateEbayFees_def totalFeesCentsUnrounded_def spec_fee_amount_def
  spec_percentage_fee_def DEFAULT_EBAY_FEE_PERCENT_def DEFAULT_EBAY_TRANSACTION_FEE_CENTS_def
  DEFAULT_SHIPPING_COST_CENTS_def js_gt_def js_ge_def js_le_def js_strict_equal_def
  number_truthy_def isNaN_def Let_def fl_numeral fl_minus fl_zero fl_one floor_rat

lemma calculateProfit_cents:
  fixes p s shipping additional f :: int
  assumes fee: "calculateEbayFees (Finite (of_int s)) DEFAULT_EBAY_FEE_PERCENT
                  DEFAULT_EBAY_TRANSACTION_FEE_CENTS = Finite (of_int f)"
    and bounds: "0 \<le> p" "p < 2 ^ 40" "0 \<le> s" "s < 2 ^ 40" "0 \<le> shipping" "shipping < 2 ^ 40"
      "0 \<le> additional" "additional < 2 ^ 40" "0 \<le> f" "f < 2 ^ 38"
  defines "r \<equiv> calculateProfit (Finite (of_int p)) (Finite (of_int s)) (Finite (of_int shipping))
                  (Finite (of_int additional))"
  shows "profit.totalCostsCents r = Finite (of_int (p + shipping + additional + f))"
    and "profit.netProfitCents r = Finite (of_int (s - (p + shipping + additional + f)))"
    and "profit.grossProfitCents r = Finite (of_int (s - p))"
    and "profit.ebayFeeCents r = Finite (of_int (f - 30))"
    and "profit.ebayTransactionFeeCents r = Finite 30"
proof -
  have a1: "js_add (Finite (of_int p)) (Finite (of_int shipping)) = Finite (of_int (p + shipping))"
    using bounds by (intro js_add_int) simp
  have a2: "js_add (Finite (of_int (p + shipping))) (Finite (of_int additional))
              = Finite (of_int (p + shipping + additional))"
    using bounds by (intro js_add_int) simp
  have a3: "js_add (Finite (of_int (p + shipping + additional))) (Finite (of_int f))
              = Finite (of_int (p + shipping + additional + f))"
    using bounds by (intro js_add_int) simp
  have s1: "js_sub (Finite (of_int s)) (Finite (of_int (p + shipping + additional + f)))
              = Finite (of_int (s - (p + shipping + additional + f)))"
    using bounds by (intro js_sub_int) simp
  have s2: "js_sub (Finite (of_int s)) (Finite (of_int p)) = Finite (of_int (s - p))"
    using bounds by (intro js_sub_int) simp
  have s3: "js_sub (Finite (of_int f)) (Finite (of_int 30)) = Finite (of_int (f - 30))"
    using bounds by (intro js_sub_int) simp
  have total: "profit.totalCostsCents r
                 = js_add (js_add (js_add (Finite (of_int p)) (Finite (of_int shipping)))
                                  (Finite (of_int additional)))
                          (Finite (of_int f))"
    by (simp only: r_def calculateProfit_def Let_def fee profit.simps)
  show T: "profit.totalCostsCents r = Finite (of_int (p + shipping + additional + f))"
    by (simp only: total a1 a2 a3)
  have "profit.netProfitCents r = js_sub (Finite (of_int s)) (profit.totalCostsCents r)"
    by (simp only: r_def calculateProfit_def Let_def profit.simps)
  then show "profit.netProfitCents r = Finite (of_int (s - (p + shipping + additional + f)))"
    by (simp only: T s1)
  have "profit.grossProfitCents r = js_sub (Finite (of_int s)) (Finite (of_int p))"
    by (simp only: r_def calculateProfit_def Let_def profit.simps)
  then show "profit.grossProfitCents r = Finite (of_int (s - p))"
    by (simp only: s2)
  have "profit.ebayFeeCents r = js_sub (Finite (of_int f)) DEFAULT_EBAY_TRANSACTION_FEE_CENTS"
    by (simp only: r_def calculateProfit_def Let_def fee profit.simps)
  then have "profit.ebayFeeCents r = js_sub (Finite (of_int f)) (Finite (of_int 30))"
    by (simp add: DEFAULT_EBAY_TRANSACTION_FEE_CENTS_def)
  then show "profit.ebayFeeCents r = Finite (of_int (f - 30))"
    by (simp only: s3)
  show "profit.ebayTransactionFeeCents r = Finite 30"
    by (simp add: r_def calculateProfit_def Let_def DEFAULT_EBAY_TRANSACTION_FEE_CENTS_def)
qed

text \<open>
  Claim C1, as the code has it. For purchase price, sale price, shipping and additional
  costs that are non-negative whole cents below \<open>2\<^sup>4\<^sup>0\<close>, no sum or difference of
  \<open>calculateProfit\<close> is rounded: the net profit is the sale price minus the sum of
  purchase price, shipping, additional costs and the total fee, and the two fee fields
  of the result, the total fee less 30 cents and the 30 cents, add up to the total fee.
  The total fee is one \<open>Math.round\<close> of the whole fee, percentage and fixed part
  together, computed in dollars in binary64 arithmetic. It is a whole number \<open>f\<close> of
  cents within half a cent of 13 percent of the sale price plus 30 cents.
\<close>

theorem calculateProfit_net_profit:
  fixes p s shipping additional :: int
  assumes "0 \<le> p" "p < 2 ^ 40" "0 \<le> s" "s < 2 ^ 40" "0 \<le> shipping" "shipping < 2 ^ 40"
    "0 \<le> additional" "additional < 2 ^ 40"
  shows "\<exists>f :: int.
           calculateEbayFees (Finite (of_int s)) DEFAULT_EBAY_FEE_PERCENT
             DEFAULT_EBAY_TRANSACTION_FEE_CENTS = Finite (of_int f)
         \<and> (let r = calculateProfit (Finite (of_int p)) (Finite (of_int s))
                      (Finite (of_int shipping)) (Finite (of_int additional))
            in profit.netProfitCents r = Finite (of_int (s - (p + shipping + additional + f)))
             \<and> profit.totalCostsCents r = Finite (of_int (p + shipping + additional + f))
             \<and> profit.ebayFeeCents r = Finite (of_int (f - 30))
             \<and> profit.ebayTransactionFeeCents r = Finite 30)
         \<and> \<bar>of_int f - (13 * of_int s / 100 + 30 :: rat)\<bar> \<le> 1 / 2"
proof -
  from calculateEbayFees_nearest[OF assms(3,4)] obtain f :: int where
    fee: "calculateEbayFees (Finite (of_int s)) DEFAULT_EBAY_FEE_PERCENT
            DEFAULT_EBAY_TRANSACTION_FEE_CENTS = Finite (of_int f)"
    and near: "\<bar>of_int f - (13 * of_int s / 100 + 30 :: rat)\<bar> \<le> 1 / 2"
    and f0: "0 \<le> f" and f1: "f < 2 ^ 38"
    by blast
  note c = calculateProfit_cents[OF fee assms f0 f1]
  show ?thesis
    unfolding Let_def
    by (intro exI[of _ f] conjI fee near c)
qed

theorem calculateProfit_net_profit_witness:
  "(0::int) \<le> 5000 \<and> (5000::int) < 2 ^ 40 \<and> (0::int) \<le> 1650 \<and> (1650::int) < 2 ^ 40
   \<and> (0::int) \<le> 500 \<and> (500::int) < 2 ^ 40 \<and> (0::int) \<le> 0 \<and> (0::int) < 2 ^ 40
   \<and> calculateEbayFees (Finite 1650) DEFAULT_EBAY_FEE_PERCENT DEFAULT_EBAY_TRANSACTION_FEE_CENTS
       = Finite 244
   \<and> profit.netProfitCents (calculateProfit (Finite 5000) (Finite 1650) (Finite 500) (Finite 0))
       = Finite (1650 - (5000 + 500 + 0 + 244))
   \<and> \<bar>244 - (13 * 1650 / 100 + 30 :: rat)\<bar> \<le> 1 / 2"
proof -
  from calculateProfit_net_profit[of 5000 1650 500 0] obtain f :: int where
    fee: "calculateEbayFees (Finite 1650) DEFAULT_EBAY_FEE_PERCENT
            DEFAULT_EBAY_TRANSACTION_FEE_CENTS = Finite (of_int f)"
    and net: "profit.netProfitCents
                (calculateProfit (Finite 5000) (Finite 1650) (Finite 500) (Finite 0))
              = Finite (of_int (1650 - (5000 + 500 + 0 + f)))"
    and near: "\<bar>of_int f - (13 * 1650 / 100 + 30 :: rat)\<bar> \<le> 1 / 2"
    unfolding Let_def by auto
  have "calculateEbayFees (Finite 1650) DEFAULT_EBAY_FEE_PERCENT
          DEFAULT_EBAY_TRANSACTION_FEE_CENTS = Finite 244"
    by (simp add: calc_eval fl_values)
  with fee have "(of_int f :: rat) = of_int 244" by simp
  then have f: "f = 244" by (simp only: of_int_eq_iff)
  from fee net near show ?thesis unfolding f by simp
qed

text \<open>
  Claim C1, as the specification states it, fails where 13 percent of the sale price
  ends on half a cent. For a sale price of 1650 cents the source computes
  \<open>1650 / 100 = 16.5\<close>, then \<open>16.5 * 0.13\<close> and \<open>+ 0.3\<close>, then \<open>* 100\<close>, which is the
  binary64 value \<open>244.49999999999997\<close>, and \<open>Math.round\<close> gives a total fee of 244 cents:
  the net profit is \<open>1650 - (5000 + 500 + 0 + 244) = -4094\<close>. The percentage fee rounded
  on its own is \<open>round(214.5) = 215\<close> cents, and with the 30 cents the claim asks for
  \<open>1650 - (5000 + 500 + 0 + 245) = -4095\<close>.
\<close>

theorem calculateProfit_net_profit_counterexample:
  "js_lt (totalFeesCentsUnrounded (Finite 1650)) (Finite (489 / 2))
   \<and> calculateEbayFees (Finite 1650) DEFAULT_EBAY_FEE_PERCENT DEFAULT_EBAY_TRANSACTION_FEE_CENTS
       = Finite 244
   \<and> spec_fee_amount (Finite 1650) = Finite 245
   \<and> of_int \<lfloor>(13 * 1650 / 100 :: rat) + 1 / 2\<rfloor> + 30 = (245 :: rat)
   \<and> profit.netProfitCents (calculateProfit (Finite 5000) (Finite 1650) (Finite 500) (Finite 0))
       = Finite (- 4094)
   \<and> js_sub (Finite 1650)
        (js_add (js_add (js_add (Finite 5000) (Finite 500)) (Finite 0))
                (spec_fee_amount (Finite 1650)))
       = Finite (- 4095)
   \<and> profit.netProfitCents (calculateProfit (Finite 5000) (Finite 1650) (Finite 500) (Finite 0))
       \<noteq> js_sub (Finite 1650)
            (js_add (js_add (js_add (Finite 5000) (Finite 500)) (Finite 0))
                    (spec_fee_amount (Finite 1650)))"
  by (simp add: calc_eval fl_values)

text \<open>
  Claim C2. With a purchase price of 5000 cents, a sale price of 7500 cents, shipping
  of 500 cents and no additional costs, the percentage fee is 975 cents, the total fee
  1005 cents, the total costs 6505 cents, the net profit 995 cents, and the ROI is
  19.90: the binary64 value that the literal \<open>19.9\<close> denotes, which differs from 19.9 by
  less than \<open>10\<^sup>-\<^sup>1\<^sup>4\<close> and which \<open>Math.round(roi * 100)\<close> takes to 1990.
\<close>

theorem calculateProfit_scenario_A:
  "profit.ebayFeeCents (calculateProfit (Finite 5000) (Finite 7500) (Finite 500) (Finite 0))
     = Finite 975
   \<and> profit.ebayTransactionFeeCents
       (calculateProfit (Finite 5000) (Finite 7500) (Finite 500) (Finite 0)) = Finite 30
   \<and> calculateEbayFees (Finite 7500) DEFAULT_EBAY_FEE_PERCENT DEFAULT_EBAY_TRANSACTION_FEE_CENTS
       = Finite 1005
   \<and> profit.totalCostsCents (calculateProfit (Finite 5000) (Finite 7500) (Finite 500) (Finite 0))
       = Finite 6505
   \<and> profit.netProfitCents (calculateProfit (Finite 5000) (Finite 7500) (Finite 500) (Finite 0))
       = Finite 995
   \<and> profit.roi (calculateProfit (Finite 5000) (Finite 7500) (Finite 500) (Finite 0))
       = Finite (fl (199 / 10))
   \<and> \<bar>fl (199 / 10) - 199 / 10\<bar> < 1 / 10 ^ 14
   \<and> js_round (js_mul (profit.roi (calculateProfit (Finite 5000) (Finite 7500) (Finite 500)
                                      (Finite 0)))
                       (Finite 100))
       = Finite 1990
   \<and> DEFAULT_SHIPPING_COST_CENTS = Finite 500"
  by (simp add: calc_eval fl_values)

lemma js_div_zero: "js_div x (Finite 0) \<in> {Infinity, MinusInfinity, NaN}"
  by (cases x) simp_all

lemma js_mul_100_non_finite:
  "x \<in> {Infinity, MinusInfinity, NaN} \<Longrightarrow> js_mul x (Finite 100) \<in> {Infinity, MinusInfinity, NaN}"
  by auto

lemma js_round_non_finite:
  "x \<in> {Infinity, MinusInfinity, NaN} \<Longrightarrow> js_round x \<in> {Infinity, MinusInfinity, NaN}"
  by auto

lemma js_div_100_non_finite:
  "x \<in> {Infinity, MinusInfinity, NaN} \<Longrightarrow> js_div x (Finite 100) \<in> {Infinity, MinusInfinity, NaN}"
  by auto

text \<open>
  Claim C3. With a purchase price of zero the ROI is zero for every sale price,
  shipping cost and additional cost, finite or not: the guard \<open>purchasePriceCents > 0\<close>
  fails and the division by the purchase price is not evaluated. The guard is what
  keeps the ROI finite: at a purchase price of zero the quotient of the net profit and
  the purchase price is \<open>Infinity\<close>, \<open>-Infinity\<close> or \<open>NaN\<close>, and so is the ROI that the
  formula of the guarded branch makes of it. \<open>calculateProfit\<close> has no statement that
  raises, and the model is a total function.
\<close>

theorem calculateProfit_zero_purchase_roi:
  "profit.roi (calculateProfit (Finite 0) s shipping other) = Finite 0
   \<and> js_div (profit.netProfitCents (calculateProfit (Finite 0) s shipping other))
        (profit.purchasePriceCents (calculateProfit (Finite 0) s shipping other))
       \<in> {Infinity, MinusInfinity, NaN}
   \<and> js_div (js_round (js_mul (js_mul (js_div (profit.netProfitCents
                                                   (calculateProfit (Finite 0) s shipping other))
                                                (Finite 0))
                                        (Finite 100))
                                (Finite 100)))
        (Finite 100)
       \<in> {Infinity, MinusInfinity, NaN}"
proof -
  let ?net = "profit.netProfitCents (calculateProfit (Finite 0) s shipping other)"
  have r: "profit.roi (calculateProfit (Finite 0) s shipping other) = Finite 0"
    by (simp add: calculateProfit_def Let_def js_gt_def fl_zero floor_rat)
  have p: "profit.purchasePriceCents (calculateProfit (Finite 0) s shipping other) = Finite 0"
    by (simp add: calculateProfit_def Let_def)
  have q: "js_div ?net (Finite 0) \<in> {Infinity, MinusInfinity, NaN}"
    by (rule js_div_zero)
  have u: "js_div (js_round (js_mul (js_mul (js_div ?net (Finite 0)) (Finite 100)) (Finite 100)))
             (Finite 100) \<in> {Infinity, MinusInfinity, NaN}"
    by (intro js_div_100_non_finite js_round_non_finite js_mul_100_non_finite q)
  from r q u show ?thesis unfolding p by (intro conjI)
qed

theorem calculateProfit_zero_purchase_roi_witness:
  "profit.roi (calculateProfit (Finite 0) (Finite 5000) DEFAULT_SHIPPING_COST_CENTS (Finite 0))
     = Finite 0
   \<and> profit.netProfitCents
       (calculateProfit (Finite 0) (Finite 5000) DEFAULT_SHIPPING_COST_CENTS (Finite 0))
     = Finite 3820
   \<and> js_div (Finite 3820) (Finite 0) = Infinity"
proof -
  have n: "profit.netProfitCents
             (calculateProfit (Finite 0) (Finite 5000) DEFAULT_SHIPPING_COST_CENTS (Finite 0))
           = Finite 3820"
    by (simp add: calc_eval fl_values)
  from calculateProfit_zero_purchase_roi[of "Finite 5000" DEFAULT_SHIPPING_COST_CENTS "Finite 0"] n
  show ?thesis by simp
qed

section \<open>The loop over the products and the sort\<close>

lemma fl_le_zero_iff: "fl x \<le> 0 \<longleftrightarrow> x \<le> 0"
proof (cases "0 < x")
  case True
  then show ?thesis using fl_pos[of x] by simp
next
  case False
  then have "0 \<le> - x" by simp
  then have "0 \<le> fl (- x)" by (rule fl_nonneg)
  with False show ?thesis by (simp add: fl_minus)
qed

lemma fl_ge_zero_iff: "0 \<le> fl x \<longleftrightarrow> 0 \<le> x"
  using fl_le_zero_iff[of "- x"] by (simp add: fl_minus)

lemma fl_pos_iff: "0 < fl x \<longleftrightarrow> 0 < x"
  using fl_le_zero_iff[of x] by (simp flip: not_le)

lemma fl_neg_iff: "fl x < 0 \<longleftrightarrow> x < 0"
  using fl_ge_zero_iff[of x] by (simp flip: not_le)

lemma fl_eq_zero_iff: "fl x = 0 \<longleftrightarrow> x = 0"
  using fl_le_zero_iff[of x] fl_ge_zero_iff[of x] by (auto simp: fl_zero)

lemma js_ge_Finite_mono: "js_ge a (Finite x) \<Longrightarrow> y \<le> x \<Longrightarrow> js_ge a (Finite y)"
  by (cases a) (auto simp: js_ge_def js_strict_equal_def)

lemma js_ge_Finite: "js_ge (Finite a) (Finite b) \<longleftrightarrow> b \<le> a"
  by (auto simp: js_ge_def js_strict_equal_def)

lemma not_js_gt_Finite: "a \<noteq> NaN \<Longrightarrow> \<not> js_gt a (Finite b) \<Longrightarrow> js_le a (Finite b)"
  by (cases a) (auto simp: js_gt_def js_le_def js_strict_equal_def)

lemma insertBy_byRoiDescending:
  assumes "\<exists>q. deal.roi x = Finite q" and "\<forall>y\<in>set ys. \<exists>q. deal.roi y = Finite q"
  shows "insertBy byRoiDescending x ys = insort_key (\<lambda>d. - finiteValue (deal.roi d)) x ys"
  using assms
  by (induction ys) (auto simp: byRoiDescending_def js_gt_def finiteValue_def fl_pos_iff)

lemma sortBy_byRoiDescending:
  assumes "\<forall>y\<in>set xs. \<exists>q. deal.roi y = Finite q"
  shows "sortBy byRoiDescending xs = sort_key (\<lambda>d. - finiteValue (deal.roi d)) xs"
  using assms
proof (induction xs)
  case Nil
  then show ?case by (simp add: sortBy_def)
next
  case (Cons x xs)
  have "sortBy byRoiDescending (x # xs) = insertBy byRoiDescending x (sortBy byRoiDescending xs)"
    by (simp add: sortBy_def)
  also have "\<dots> = insertBy byRoiDescending x (sort_key (\<lambda>d. - finiteValue (deal.roi d)) xs)"
    using Cons by simp
  also have "\<dots> = insort_key (\<lambda>d. - finiteValue (deal.roi d)) x
                     (sort_key (\<lambda>d. - finiteValue (deal.roi d)) xs)"
    using Cons.prems by (intro insertBy_byRoiDescending) simp_all
  finally show ?case by (simp add: sort_key_def)
qed

lemma collectDeals_Inr:
  "collectDeals lc pf b ps = Inr ds \<Longrightarrow> ds = dealsInInputOrder lc pf b ps"
proof (induction ps arbitrary: ds)
  case Nil
  then show ?case by (simp add: dealsInInputOrder_def map_filter_simps)
next
  case (Cons p ps)
  from Cons.prems obtain r ds' where
    r: "evaluateProduct lc pf b p = Inr r" and ds': "collectDeals lc pf b ps = Inr ds'"
    and ds: "ds = (case r of None \<Rightarrow> ds' | Some d \<Rightarrow> d # ds')"
    by (auto split: sum.splits)
  from Cons.IH[OF ds'] have "ds' = dealsInInputOrder lc pf b ps" .
  with r ds show ?case
    by (cases r) (simp_all add: dealsInInputOrder_def map_filter_simps)
qed

lemma collectDeals_no_error:
  "collectDeals lc pf b ps = Inr ds \<Longrightarrow> p \<in> set ps \<Longrightarrow> evaluateProduct lc pf b p \<noteq> Inl e"
  by (induction ps arbitrary: ds) (auto split: sum.splits)

lemma collectDeals_total:
  "(\<And>p e. p \<in> set ps \<Longrightarrow> evaluateProduct lc pf b p \<noteq> Inl e)
    \<Longrightarrow> collectDeals lc pf b ps = Inr (dealsInInputOrder lc pf b ps)"
proof (induction ps)
  case Nil
  then show ?case by (simp add: dealsInInputOrder_def map_filter_simps)
next
  case (Cons p ps)
  have "collectDeals lc pf b ps = Inr (dealsInInputOrder lc pf b ps)"
    by (rule Cons.IH) (simp add: Cons.prems)
  moreover obtain r where "evaluateProduct lc pf b p = Inr r"
    using Cons.prems[of p] by (cases "evaluateProduct lc pf b p") auto
  ultimately show ?case
    by (cases r) (simp_all add: dealsInInputOrder_def map_filter_simps)
qed

lemma in_dealsInInputOrder:
  "d \<in> set (dealsInInputOrder lc pf b ps)
     \<longleftrightarrow> (\<exists>p\<in>set ps. evaluateProduct lc pf b p = Inr (Some d))"
  by (induction ps)
     (auto simp: dealsInInputOrder_def map_filter_simps split: sum.splits option.splits)

lemma evaluateProduct_SomeD:
  assumes "evaluateProduct lc pf b p = Inr (Some d)"
  shows "deal_card d = parseProductData pf p"
    and "marketValueCents d = loosePriceCents (parseProductData pf p)"
    and "marketValueCents d \<noteq> Finite 0"
    and "recommendedBuyPriceCents d
           = js_round (js_mul (marketValueCents d) (Finite (fl (8 / 10))))"
    and "\<And>m. maxPrice b = Some m \<Longrightarrow> m \<noteq> 0
           \<Longrightarrow> \<not> js_gt (recommendedBuyPriceCents d) (js_mul (Finite m) (Finite 100))"
    and "js_ge (deal.roi d) (Finite (case minRoi b of None \<Rightarrow> 20 | Some r \<Rightarrow> r))"
    and "deal.roi d = profit.roi (calculateProfit (recommendedBuyPriceCents d) (marketValueCents d)
                                     DEFAULT_SHIPPING_COST_CENTS (Finite 0))"
    and "potentialProfitCents d
           = profit.netProfitCents (calculateProfit (recommendedBuyPriceCents d) (marketValueCents d)
                                     DEFAULT_SHIPPING_COST_CENTS (Finite 0))"
    and "genreFilterSkips lc (find_deals_request.genre b) (card.genre (parseProductData pf p))
           = Inr False"
    and "marketValueCents d \<noteq> NaN"
  using assms
  by (auto simp: evaluateProduct_def Let_def js_strict_equal_def number_truthy_def
           split: sum.splits bool.splits if_splits option.splits)

lemma calculateProfit_roi_finite:
  "\<exists>q. profit.roi (calculateProfit (Finite p) (Finite s) (Finite shipping) (Finite other))
          = Finite q"
  by (simp add: calculateProfit_def calculateEbayFees_def Let_def js_gt_def
        DEFAULT_EBAY_FEE_PERCENT_def DEFAULT_EBAY_TRANSACTION_FEE_CENTS_def)

lemma calculateProfit_roi_Infinity:
  "profit.roi (calculateProfit Infinity Infinity DEFAULT_SHIPPING_COST_CENTS (Finite 0)) = NaN"
  by (simp add: calculateProfit_def calculateEbayFees_def Let_def js_gt_def
        DEFAULT_EBAY_FEE_PERCENT_def DEFAULT_EBAY_TRANSACTION_FEE_CENTS_def
        DEFAULT_SHIPPING_COST_CENTS_def fl_13_100)

lemma calculateProfit_roi_MinusInfinity:
  "profit.roi (calculateProfit MinusInfinity MinusInfinity DEFAULT_SHIPPING_COST_CENTS (Finite 0))
     = Finite 0"
  by (simp add: calculateProfit_def calculateEbayFees_def Let_def js_gt_def
        DEFAULT_EBAY_FEE_PERCENT_def DEFAULT_EBAY_TRANSACTION_FEE_CENTS_def
        DEFAULT_SHIPPING_COST_CENTS_def fl_13_100 fl_zero floor_rat)

lemma fl_8_10_pos: "0 < fl (8 / 10)"
  by (rule fl_pos) simp

lemma recommendedBuyPrice_cases:
  assumes "v \<noteq> NaN" "v \<noteq> Finite 0"
  shows "(\<exists>a b. v = Finite a \<and> js_round (js_mul v (Finite (fl (8 / 10)))) = Finite b)
         \<or> (v = Infinity \<and> js_round (js_mul v (Finite (fl (8 / 10)))) = Infinity)
         \<or> (v = MinusInfinity \<and> js_round (js_mul v (Finite (fl (8 / 10)))) = MinusInfinity)"
  using assms fl_8_10_pos by (cases v) auto

lemma evaluateProduct_roi_finite:
  assumes "evaluateProduct lc pf b p = Inr (Some d)"
  shows "\<exists>q. deal.roi d = Finite q"
proof -
  note D = evaluateProduct_SomeD[OF assms]
  from recommendedBuyPrice_cases[OF D(10) D(3)]
  consider (fin) a c where "marketValueCents d = Finite a" "recommendedBuyPriceCents d = Finite c"
    | (inf) "marketValueCents d = Infinity" "recommendedBuyPriceCents d = Infinity"
    | (minf) "marketValueCents d = MinusInfinity" "recommendedBuyPriceCents d = MinusInfinity"
    unfolding D(4) by blast
  then show ?thesis
  proof cases
    case fin
    then show ?thesis
      using calculateProfit_roi_finite[of c a 500 0]
      by (simp add: D(7) DEFAULT_SHIPPING_COST_CENTS_def)
  next
    case inf
    with D(6) show ?thesis
      by (simp add: D(7) calculateProfit_roi_Infinity js_ge_def js_strict_equal_def)
  next
    case minf
    then show ?thesis by (simp add: D(7) calculateProfit_roi_MinusInfinity)
  qed
qed

lemma recommendedBuyPrice_not_NaN:
  assumes "evaluateProduct lc pf b p = Inr (Some d)"
  shows "recommendedBuyPriceCents d \<noteq> NaN"
  using recommendedBuyPrice_cases[OF evaluateProduct_SomeD(10)[OF assms]
      evaluateProduct_SomeD(3)[OF assms]]
  unfolding evaluateProduct_SomeD(4)[OF assms] by auto

lemma dealsInInputOrder_roi_finite:
  "\<forall>d\<in>set (dealsInInputOrder lc pf b ps). \<exists>q. deal.roi d = Finite q"
  using evaluateProduct_roi_finite by (auto simp: in_dealsInInputOrder)

lemma findDeals_Inr:
  assumes "findDeals lc pf b ps = Inr deals"
  shows "deals = sort_key (\<lambda>d. - finiteValue (deal.roi d)) (dealsInInputOrder lc pf b ps)"
    and "collectDeals lc pf b ps = Inr (dealsInInputOrder lc pf b ps)"
proof -
  from assms obtain ds where c: "collectDeals lc pf b ps = Inr ds"
    and d: "deals = sortBy byRoiDescending ds"
    by (auto simp: findDeals_def split: sum.splits)
  from collectDeals_Inr[OF c] have "ds = dealsInInputOrder lc pf b ps" .
  with c d
  show "deals = sort_key (\<lambda>d. - finiteValue (deal.roi d)) (dealsInInputOrder lc pf b ps)"
    and "collectDeals lc pf b ps = Inr (dealsInInputOrder lc pf b ps)"
    by (simp_all add: sortBy_byRoiDescending[OF dealsInInputOrder_roi_finite])
qed

lemma findDeals_total:
  assumes "\<And>p e. p \<in> set ps \<Longrightarrow> evaluateProduct lc pf b p \<noteq> Inl e"
  shows "findDeals lc pf b ps
           = Inr (sort_key (\<lambda>d. - finiteValue (deal.roi d)) (dealsInInputOrder lc pf b ps))"
  using collectDeals_total[of ps lc pf b] assms
  by (simp add: findDeals_def sortBy_byRoiDescending[OF dealsInInputOrder_roi_finite])

lemma findDeals_member:
  assumes "findDeals lc pf b ps = Inr deals"
  shows "d \<in> set deals \<longleftrightarrow> (\<exists>p\<in>set ps. evaluateProduct lc pf b p = Inr (Some d))"
  using findDeals_Inr(1)[OF assms] by (simp add: in_dealsInInputOrder)

lemma findDeals_no_error:
  assumes "findDeals lc pf b ps = Inr deals" "p \<in> set ps"
  shows "evaluateProduct lc pf b p \<noteq> Inl e"
  using collectDeals_no_error[OF findDeals_Inr(2)[OF assms(1)] assms(2)] .

lemma evaluateProduct_minRoi_Some:
  assumes "evaluateProduct lc pf (b\<lparr>minRoi := x\<rparr>) p = Inr (Some d)"
    and "(case y of None \<Rightarrow> 20 | Some r \<Rightarrow> r) \<le> (case x of None \<Rightarrow> 20 | Some r \<Rightarrow> r)"
  shows "evaluateProduct lc pf (b\<lparr>minRoi := y\<rparr>) p = Inr (Some d)"
  using assms js_ge_Finite_mono
  by (auto simp: evaluateProduct_def Let_def js_strict_equal_def number_truthy_def
           split: sum.splits bool.splits if_splits)

lemma evaluateProduct_minRoi_error:
  "evaluateProduct lc pf (b\<lparr>minRoi := x\<rparr>) p = Inl e
     \<Longrightarrow> evaluateProduct lc pf (b\<lparr>minRoi := y\<rparr>) p = Inl e"
  by (auto simp: evaluateProduct_def Let_def js_strict_equal_def number_truthy_def
           split: sum.splits bool.splits if_splits option.splits)

section \<open>The deal evaluator\<close>

lemmas deals_eval =
  findDeals_def collectDeals.simps evaluateProduct_def parseProductData_def pricedProduct_def
  genreProduct_def unpricedProduct_def genreFilterSkips_def js_or_def sortBy_def
  byRoiDescending_def asciiLowerCase_def noParseFloat_def pricedDeal_def
  genreDeal_def dealsInInputOrder_def map_filter_simps fl_le_zero_iff fl_ge_zero_iff
  fl_pos_iff fl_neg_iff fl_eq_zero_iff

lemma js_mul_100_exact:
  assumes "isInteger (Finite m)" "\<bar>m\<bar> < 2 ^ 46"
  shows "js_mul (Finite m) (Finite 100) = Finite (m * 100)"
proof -
  define k where "k = \<lfloor>m\<rfloor>"
  have m: "m = of_int k" using assms(1) unfolding k_def isInteger.simps by (rule sym)
  have "\<bar>(of_int k :: rat)\<bar> < of_int (2 ^ 46)" using assms(2) by (simp add: m)
  then have "\<bar>k\<bar> < 2 ^ 46" by (simp only: of_int_less_iff flip: of_int_abs)
  then have "\<bar>k * 100\<bar> < 2 ^ 53" by (simp add: abs_mult)
  from js_mul_int[OF this] show ?thesis by (simp add: m)
qed

lemma truthy_js_or: "truthy (js_or a b) \<longleftrightarrow> truthy a \<or> truthy b"
  by (simp add: js_or_def)

lemma parsePriceToCents_falsy: "\<not> truthy v \<Longrightarrow> parsePriceToCents pf v = Finite 0"
  by (cases v) simp_all

lemma loosePriceCents_parseProductData:
  "loosePriceCents (parseProductData pf p)
     = parsePriceToCents pf (js_or (p ''loose-price'') (p ''loosePriceCents''))"
  by (simp add: parseProductData_def)

lemma genre_parseProductData:
  "card.genre (parseProductData pf p) = js_or (p ''genre'') (JStr [])"
  by (simp add: parseProductData_def)

lemma evaluateProduct_zero_value:
  assumes "loosePriceCents (parseProductData pf p) = Finite 0"
  shows "evaluateProduct lc pf b p \<noteq> Inr (Some d)"
  using assms
  by (auto simp: evaluateProduct_def Let_def js_strict_equal_def number_truthy_def
           split: sum.splits bool.splits)

lemma evaluateProduct_minRoi_default:
  "evaluateProduct lc pf (b\<lparr>minRoi := None\<rparr>) p = evaluateProduct lc pf (b\<lparr>minRoi := Some 20\<rparr>) p"
  by (simp add: evaluateProduct_def Let_def split: sum.splits bool.splits)

lemma collectDeals_minRoi_default:
  "collectDeals lc pf (b\<lparr>minRoi := None\<rparr>) ps = collectDeals lc pf (b\<lparr>minRoi := Some 20\<rparr>) ps"
  by (induction ps) (simp_all add: evaluateProduct_minRoi_default split: sum.splits)

lemma genreFilterSkips_no_genre:
  "\<not> truthy v \<Longrightarrow> genreFilterSkips lc g (js_or v (JStr [])) = Inr False"
  by (simp add: genreFilterSkips_def js_or_def split: option.splits)

lemma evaluateProduct_genre_passes:
  assumes "genreFilterSkips lc (find_deals_request.genre req) (card.genre (parseProductData pf raw))
             = Inr False"
  shows "evaluateProduct lc pf req raw
           = evaluateProduct lc pf (req\<lparr>find_deals_request.genre := None\<rparr>) raw"
proof -
  have "genreFilterSkips lc None (card.genre (parseProductData pf raw)) = Inr False"
    by (simp add: genreFilterSkips_def)
  with assms show ?thesis
    by (simp add: evaluateProduct_def Let_def)
qed

lemma evaluateProduct_no_genre:
  assumes "\<not> truthy (raw ''genre'')"
  shows "evaluateProduct lc pf req raw
           = evaluateProduct lc pf (req\<lparr>find_deals_request.genre := None\<rparr>) raw"
  using genreFilterSkips_no_genre[OF assms]
  by (intro evaluateProduct_genre_passes) (simp add: genre_parseProductData)

lemma evaluateProduct_skipped_by_genre:
  assumes "evaluateProduct lc pf req raw = Inr None"
    and "evaluateProduct lc pf (req\<lparr>find_deals_request.genre := None\<rparr>) raw \<noteq> Inr None"
  shows "\<exists>g s. find_deals_request.genre req = Some g \<and> g \<noteq> [] \<and> raw ''genre'' = JStr s \<and> s \<noteq> []
           \<and> \<not> js_includes (lc s) (lc g)"
proof -
  have skip: "genreFilterSkips lc (find_deals_request.genre req) (js_or (raw ''genre'') (JStr []))
                = Inr True"
  proof (rule ccontr)
    assume n: "\<not> ?thesis"
    from assms(1) have 1: "genreFilterSkips lc (find_deals_request.genre req)
                             (card.genre (parseProductData pf raw)) = Inr False"
      using n
      by (cases "genreFilterSkips lc (find_deals_request.genre req)
                   (card.genre (parseProductData pf raw))")
         (auto simp: evaluateProduct_def genre_parseProductData Let_def)
    from evaluateProduct_genre_passes[OF 1] assms show False by simp
  qed
  then obtain g where g: "find_deals_request.genre req = Some g" "g \<noteq> []"
    by (auto simp: genreFilterSkips_def split: option.splits if_splits)
  from skip g have t: "truthy (js_or (raw ''genre'') (JStr []))"
    by (auto simp: genreFilterSkips_def split: if_splits)
  then have tr: "truthy (raw ''genre'')" by (simp add: truthy_js_or)
  then have o: "js_or (raw ''genre'') (JStr []) = raw ''genre''" by (simp add: js_or_def)
  from skip g t o obtain s where s: "raw ''genre'' = JStr s"
    and i: "\<not> js_includes (lc s) (lc g)"
    by (cases "raw ''genre''") (auto simp: genreFilterSkips_def)
  from tr s have "s \<noteq> []" by simp
  with g s i show ?thesis by blast
qed

text \<open>
  Claim C6, as the code has it. The request's \<open>maxPrice\<close> is multiplied by 100 before
  the recommended buy price, which is in cents, is compared with it: the maximum is
  read as an amount in dollars. When a non-zero maximum is supplied, every deal of the
  output has a recommended buy price of at most \<open>maxPrice * 100\<close>, which for a whole
  number of dollars is exactly a hundred times the maximum.
\<close>

theorem findDeals_max_price:
  assumes "findDeals lc pf req ps = Inr deals"
    and "maxPrice req = Some m" and "m \<noteq> 0"
    and "d \<in> set deals"
  shows "js_le (recommendedBuyPriceCents d) (js_mul (Finite m) (Finite 100))
         \<and> (isInteger (Finite m) \<and> \<bar>m\<bar> < 2 ^ 46
            \<longrightarrow> js_le (recommendedBuyPriceCents d) (Finite (m * 100)))"
proof -
  from findDeals_member[OF assms(1)] assms(4) obtain p where
    e: "evaluateProduct lc pf req p = Inr (Some d)" by blast
  from evaluateProduct_SomeD(5)[OF e assms(2,3)]
  have "\<not> js_gt (recommendedBuyPriceCents d) (Finite (fl (m * 100)))" by simp
  with recommendedBuyPrice_not_NaN[OF e]
  have "js_le (recommendedBuyPriceCents d) (Finite (fl (m * 100)))"
    by (rule not_js_gt_Finite)
  then have "js_le (recommendedBuyPriceCents d) (js_mul (Finite m) (Finite 100))" by simp
  then show ?thesis using js_mul_100_exact[of m] by auto
qed

lemma findDeals_ceiling_scenario:
  "findDeals asciiLowerCase noParseFloat
     \<lparr> minRoi = Some (- 100), maxPrice = Some 50, find_deals_request.genre = None \<rparr>
     [pricedProduct 10000, pricedProduct 5000]
   = Inr [pricedDeal 5000 4000 (- 180) (- (9 / 2))]"
  by (simp add: deals_eval calc_eval fl_values)

theorem findDeals_max_price_witness:
  "findDeals asciiLowerCase noParseFloat
     \<lparr> minRoi = Some (- 100), maxPrice = Some 50, find_deals_request.genre = None \<rparr>
     [pricedProduct 10000, pricedProduct 5000]
     = Inr [pricedDeal 5000 4000 (- 180) (- (9 / 2))]
   \<and> maxPrice \<lparr> minRoi = Some (- 100), maxPrice = Some 50, find_deals_request.genre = None \<rparr>
       = Some 50
   \<and> (50 :: rat) \<noteq> 0
   \<and> pricedDeal 5000 4000 (- 180) (- (9 / 2)) \<in> set [pricedDeal 5000 4000 (- 180) (- (9 / 2))]
   \<and> isInteger (Finite 50) \<and> \<bar>50 :: rat\<bar> < 2 ^ 46
   \<and> js_le (recommendedBuyPriceCents (pricedDeal 5000 4000 (- 180) (- (9 / 2))))
        (js_mul (Finite 50) (Finite 100))
   \<and> js_le (recommendedBuyPriceCents (pricedDeal 5000 4000 (- 180) (- (9 / 2))))
        (Finite (50 * 100))"
proof -
  have i: "isInteger (Finite 50)" "\<bar>50 :: rat\<bar> < 2 ^ 46" by simp_all
  from findDeals_max_price[OF findDeals_ceiling_scenario, of 50
      "pricedDeal 5000 4000 (- 180) (- (9 / 2))"] i
  show ?thesis using findDeals_ceiling_scenario by simp
qed

text \<open>
  Claim C6, as the specification states it, reads the maximum as cents. With a maximum
  of 5000 and a product whose market value is 10000 cents, the recommended buy price
  is 8000 cents; the code compares it with \<open>5000 * 100\<close>, and the deal is in the output
  although \<open>8000 > 5000\<close>.
\<close>

theorem findDeals_max_price_counterexample:
  "findDeals asciiLowerCase noParseFloat
     \<lparr> minRoi = Some 0, maxPrice = Some 5000, find_deals_request.genre = None \<rparr>
     [pricedProduct 10000]
     = Inr [pricedDeal 10000 8000 170 (2398166801574789 / 1125899906842624)]
   \<and> recommendedBuyPriceCents (pricedDeal 10000 8000 170 (2398166801574789 / 1125899906842624))
       = Finite 8000
   \<and> \<not> js_le (Finite 8000) (Finite 5000)"
  by (simp add: deals_eval calc_eval fl_values)

text \<open>
  Claim C7, as the code has it. For every threshold \<open>X\<close>, every deal returned with
  minimum ROI \<open>X\<close> has an ROI of at least \<open>X\<close>, and a request without \<open>minRoi\<close> is a
  request with \<open>minRoi = 20\<close>. For a threshold \<open>X \<ge> 0\<close>, every deal returned with
  minimum ROI \<open>X\<close> is returned with minimum ROI 0 as well.
\<close>

theorem findDeals_min_roi_subset:
  assumes "findDeals lc pf (req\<lparr>minRoi := Some X\<rparr>) ps = Inr dealsX"
  shows "(\<forall>d\<in>set dealsX. js_ge (deal.roi d) (Finite X))
         \<and> (0 \<le> X
            \<longrightarrow> (\<exists>deals0. findDeals lc pf (req\<lparr>minRoi := Some 0\<rparr>) ps = Inr deals0
                          \<and> set dealsX \<subseteq> set deals0))
         \<and> findDeals lc pf (req\<lparr>minRoi := None\<rparr>) ps
             = findDeals lc pf (req\<lparr>minRoi := Some 20\<rparr>) ps"
proof -
  have no_error: "evaluateProduct lc pf (req\<lparr>minRoi := Some 0\<rparr>) p \<noteq> Inl e"
    if "p \<in> set ps" for p e
  proof
    assume "evaluateProduct lc pf (req\<lparr>minRoi := Some 0\<rparr>) p = Inl e"
    then have "evaluateProduct lc pf (req\<lparr>minRoi := Some X\<rparr>) p = Inl e"
      by (rule evaluateProduct_minRoi_error)
    with findDeals_no_error[OF assms that, of e] show False by simp
  qed
  define deals0 where
    "deals0 = sort_key (\<lambda>d. - finiteValue (deal.roi d))
                (dealsInInputOrder lc pf (req\<lparr>minRoi := Some 0\<rparr>) ps)"
  have f0: "findDeals lc pf (req\<lparr>minRoi := Some 0\<rparr>) ps = Inr deals0"
    unfolding deals0_def by (rule findDeals_total) (rule no_error)
  have sub: "set dealsX \<subseteq> set deals0" if X: "0 \<le> X"
  proof
    fix d assume "d \<in> set dealsX"
    with findDeals_member[OF assms] obtain p where p: "p \<in> set ps"
      and e: "evaluateProduct lc pf (req\<lparr>minRoi := Some X\<rparr>) p = Inr (Some d)" by blast
    from e have "evaluateProduct lc pf (req\<lparr>minRoi := Some 0\<rparr>) p = Inr (Some d)"
      by (rule evaluateProduct_minRoi_Some) (simp add: X)
    with p findDeals_member[OF f0] show "d \<in> set deals0" by blast
  qed
  have ge: "\<forall>d\<in>set dealsX. js_ge (deal.roi d) (Finite X)"
  proof
    fix d assume "d \<in> set dealsX"
    with findDeals_member[OF assms] obtain p where
      "evaluateProduct lc pf (req\<lparr>minRoi := Some X\<rparr>) p = Inr (Some d)" by blast
    from evaluateProduct_SomeD(6)[OF this] show "js_ge (deal.roi d) (Finite X)" by simp
  qed
  have "findDeals lc pf (req\<lparr>minRoi := None\<rparr>) ps = findDeals lc pf (req\<lparr>minRoi := Some 20\<rparr>) ps"
    by (simp add: findDeals_def collectDeals_minRoi_default)
  with f0 sub ge show ?thesis by blast
qed

lemma findDeals_threshold_scenario:
  "findDeals asciiLowerCase noParseFloat
     (\<lparr> minRoi = None, maxPrice = None, find_deals_request.genre = None \<rparr>\<lparr>minRoi := Some 2\<rparr>)
     [pricedProduct 1000, pricedProduct 10000]
   = Inr [pricedDeal 10000 8000 170 (2398166801574789 / 1125899906842624)]"
  by (simp add: deals_eval calc_eval fl_values)

lemma findDeals_negative_threshold_scenario:
  "findDeals asciiLowerCase noParseFloat
     (\<lparr> minRoi = None, maxPrice = None, find_deals_request.genre = None \<rparr>
        \<lparr>minRoi := Some (- 100)\<rparr>)
     [pricedProduct 1000]
   = Inr [pricedDeal 1000 800 (- 460) (- (115 / 2))]"
  by (simp add: deals_eval calc_eval fl_values)

theorem findDeals_min_roi_subset_witness:
  "findDeals asciiLowerCase noParseFloat
     (\<lparr> minRoi = None, maxPrice = None, find_deals_request.genre = None \<rparr>\<lparr>minRoi := Some 2\<rparr>)
     [pricedProduct 1000, pricedProduct 10000]
     = Inr [pricedDeal 10000 8000 170 (2398166801574789 / 1125899906842624)]
   \<and> js_ge (deal.roi (pricedDeal 10000 8000 170 (2398166801574789 / 1125899906842624)))
        (Finite 2)
   \<and> (0 :: rat) \<le> 2
   \<and> (\<exists>deals0.
         findDeals asciiLowerCase noParseFloat
           (\<lparr> minRoi = None, maxPrice = None, find_deals_request.genre = None \<rparr>\<lparr>minRoi := Some 0\<rparr>)
           [pricedProduct 1000, pricedProduct 10000] = Inr deals0
         \<and> pricedDeal 10000 8000 170 (2398166801574789 / 1125899906842624) \<in> set deals0)
   \<and> findDeals asciiLowerCase noParseFloat
        (\<lparr> minRoi = None, maxPrice = None, find_deals_request.genre = None \<rparr>
           \<lparr>minRoi := Some (- 100)\<rparr>)
        [pricedProduct 1000]
       = Inr [pricedDeal 1000 800 (- 460) (- (115 / 2))]
   \<and> js_ge (deal.roi (pricedDeal 1000 800 (- 460) (- (115 / 2)))) (Finite (- 100))"
proof -
  have "(0 :: rat) \<le> 2" by simp
  with findDeals_min_roi_subset[OF findDeals_threshold_scenario]
    findDeals_min_roi_subset[OF findDeals_negative_threshold_scenario]
  show ?thesis
    using findDeals_threshold_scenario findDeals_negative_threshold_scenario by auto
qed

text \<open>
  Claim C7, as the specification states it, holds for every threshold, and a threshold
  may be negative. A product with a market value of 1000 cents gives an ROI of -57.5:
  with \<open>minRoi = -100\<close> the deal is returned, with \<open>minRoi = 0\<close> it is not, so the
  output for \<open>-100\<close> is not a subset of the output for 0.
\<close>

theorem findDeals_min_roi_subset_counterexample:
  "findDeals asciiLowerCase noParseFloat
     \<lparr> minRoi = Some (- 100), maxPrice = None, find_deals_request.genre = None \<rparr>
     [pricedProduct 1000]
     = Inr [pricedDeal 1000 800 (- 460) (- (115 / 2))]
   \<and> findDeals asciiLowerCase noParseFloat
       \<lparr> minRoi = Some 0, maxPrice = None, find_deals_request.genre = None \<rparr>
       [pricedProduct 1000]
     = Inr []
   \<and> \<not> set [pricedDeal 1000 800 (- 460) (- (115 / 2))] \<subseteq> set []"
  by (simp add: deals_eval calc_eval fl_values)

lemma sorted_wrt_roi:
  assumes "\<forall>d\<in>set xs. \<exists>q. deal.roi d = Finite q"
    and "sorted (map (\<lambda>d. - finiteValue (deal.roi d)) xs)"
  shows "sorted_wrt (\<lambda>a b. js_ge (deal.roi a) (deal.roi b)) xs"
proof -
  from assms(2) have "sorted_wrt (\<lambda>a b. - finiteValue (deal.roi a) \<le> - finiteValue (deal.roi b)) xs"
    by (simp add: sorted_map)
  moreover have "js_ge (deal.roi a) (deal.roi b)"
    if "a \<in> set xs" "b \<in> set xs" "- finiteValue (deal.roi a) \<le> - finiteValue (deal.roi b)"
    for a b
  proof -
    from that(1,2) assms(1) obtain qa qb where
      "deal.roi a = Finite qa" "deal.roi b = Finite qb" by blast
    with that(3) show ?thesis by (simp add: finiteValue_def js_ge_Finite)
  qed
  ultimately show ?thesis by (rule sorted_wrt_mono_rel[rotated])
qed

lemma filter_roi:
  assumes "\<forall>d\<in>set xs. \<exists>q. deal.roi d = Finite q"
  shows "filter (\<lambda>d. deal.roi d = r) xs
           = (case r of
                Finite q \<Rightarrow> filter (\<lambda>d. - finiteValue (deal.roi d) = - q) xs
              | _ \<Rightarrow> [])"
proof (cases r)
  case (Finite q)
  have "filter (\<lambda>d. deal.roi d = Finite q) xs
          = filter (\<lambda>d. - finiteValue (deal.roi d) = - q) xs"
    using assms by (intro filter_cong) (auto simp: finiteValue_def)
  with Finite show ?thesis by simp
next
  case Infinity
  with assms show ?thesis by (auto simp: filter_empty_conv)
next
  case MinusInfinity
  with assms show ?thesis by (auto simp: filter_empty_conv)
next
  case NaN
  with assms show ?thesis by (auto simp: filter_empty_conv)
qed

text \<open>
  Claim C8. The output is sorted by ROI, highest first, and the deals of one ROI are in
  the output in the order in which the loop pushed them, which is the order of their
  products in the input.
\<close>

theorem findDeals_sorted_stable:
  assumes "findDeals lc pf req ps = Inr deals"
  shows "sorted_wrt (\<lambda>a b. js_ge (deal.roi a) (deal.roi b)) deals
         \<and> (\<forall>r. filter (\<lambda>d. deal.roi d = r) deals
                  = filter (\<lambda>d. deal.roi d = r) (dealsInInputOrder lc pf req ps))"
proof -
  let ?f = "\<lambda>d. - finiteValue (deal.roi d)"
  let ?xs = "dealsInInputOrder lc pf req ps"
  from findDeals_Inr(1)[OF assms]
  have d: "deals = sort_key ?f ?xs" .
  have fin: "\<forall>d\<in>set ?xs. \<exists>q. deal.roi d = Finite q"
    by (rule dealsInInputOrder_roi_finite)
  then have fin': "\<forall>d\<in>set deals. \<exists>q. deal.roi d = Finite q"
    by (simp add: d)
  have "sorted (map ?f deals)" unfolding d by (rule sorted_sort_key)
  with fin' have s: "sorted_wrt (\<lambda>a b. js_ge (deal.roi a) (deal.roi b)) deals"
    by (rule sorted_wrt_roi)
  have "filter (\<lambda>d. deal.roi d = r) deals = filter (\<lambda>d. deal.roi d = r) ?xs" for r
  proof (cases r)
    case (Finite q)
    from sort_key_stable[of ?f "- q" ?xs]
    have "filter (\<lambda>d. ?f d = - q) deals = filter (\<lambda>d. ?f d = - q) ?xs"
      by (simp only: d)
    then show ?thesis
      unfolding filter_roi[OF fin'] filter_roi[OF fin] Finite by simp
  qed (simp_all add: filter_roi[OF fin'] filter_roi[OF fin])
  with s show ?thesis by simp
qed

lemma findDeals_order_scenario:
  "findDeals asciiLowerCase noParseFloat
     \<lparr> minRoi = Some 0, maxPrice = None, find_deals_request.genre = None \<rparr>
     [genreProduct ''Basketball Cards'' 10000, pricedProduct 20000,
      genreProduct ''Football Cards'' 10000]
   = Inr [pricedDeal 20000 16000 870 (6124895493223875 / 1125899906842624),
          genreDeal ''Basketball Cards'' 10000 8000 170 (2398166801574789 / 1125899906842624),
          genreDeal ''Football Cards'' 10000 8000 170 (2398166801574789 / 1125899906842624)]"
  by (simp add: deals_eval calc_eval fl_values)

theorem findDeals_sorted_stable_witness:
  "findDeals asciiLowerCase noParseFloat
     \<lparr> minRoi = Some 0, maxPrice = None, find_deals_request.genre = None \<rparr>
     [genreProduct ''Basketball Cards'' 10000, pricedProduct 20000,
      genreProduct ''Football Cards'' 10000]
   = Inr [pricedDeal 20000 16000 870 (6124895493223875 / 1125899906842624),
          genreDeal ''Basketball Cards'' 10000 8000 170 (2398166801574789 / 1125899906842624),
          genreDeal ''Football Cards'' 10000 8000 170 (2398166801574789 / 1125899906842624)]
   \<and> sorted_wrt (\<lambda>a b. js_ge (deal.roi a) (deal.roi b))
       [pricedDeal 20000 16000 870 (6124895493223875 / 1125899906842624),
        genreDeal ''Basketball Cards'' 10000 8000 170 (2398166801574789 / 1125899906842624),
        genreDeal ''Football Cards'' 10000 8000 170 (2398166801574789 / 1125899906842624)]
   \<and> filter (\<lambda>d. deal.roi d = Finite (2398166801574789 / 1125899906842624))
       [pricedDeal 20000 16000 870 (6124895493223875 / 1125899906842624),
        genreDeal ''Basketball Cards'' 10000 8000 170 (2398166801574789 / 1125899906842624),
        genreDeal ''Football Cards'' 10000 8000 170 (2398166801574789 / 1125899906842624)]
     = filter (\<lambda>d. deal.roi d = Finite (2398166801574789 / 1125899906842624))
         (dealsInInputOrder asciiLowerCase noParseFloat
            \<lparr> minRoi = Some 0, maxPrice = None, find_deals_request.genre = None \<rparr>
            [genreProduct ''Basketball Cards'' 10000, pricedProduct 20000,
             genreProduct ''Football Cards'' 10000])"
  using findDeals_sorted_stable[OF findDeals_order_scenario] findDeals_order_scenario
  by blast

text \<open>
  Claim C9. Every deal of the output has a market value that is not zero and comes from
  a product of the input whose market-value figure is present and parses to a non-zero
  amount. A product whose figure is missing or zero (both price keys absent, \<open>null\<close>,
  \<open>0\<close> or the empty string), or parses to zero, gives no deal, whatever the threshold,
  the ceiling and the genre filter are, and its card is the card of no deal.
\<close>

theorem findDeals_excludes_zero_market_value:
  assumes "findDeals lc pf req ps = Inr deals"
    and "d \<in> set deals"
  shows "marketValueCents d \<noteq> Finite 0
         \<and> (\<exists>p. p \<in> set ps \<and> deal_card d = parseProductData pf p
                \<and> truthy (js_or (p ''loose-price'') (p ''loosePriceCents''))
                \<and> loosePriceCents (parseProductData pf p) \<noteq> Finite 0)
         \<and> (\<forall>p. \<not> truthy (js_or (p ''loose-price'') (p ''loosePriceCents''))
                  \<or> loosePriceCents (parseProductData pf p) = Finite 0
                \<longrightarrow> deal_card d \<noteq> parseProductData pf p
                    \<and> (\<forall>d'. evaluateProduct lc pf req p \<noteq> Inr (Some d')))"
proof -
  from findDeals_member[OF assms(1)] assms(2) obtain p where p: "p \<in> set ps"
    and e: "evaluateProduct lc pf req p = Inr (Some d)" by blast
  note D = evaluateProduct_SomeD[OF e]
  have v: "marketValueCents d \<noteq> Finite 0" by (rule D(3))
  have lp: "loosePriceCents (parseProductData pf p) \<noteq> Finite 0" using D(2) D(3) by simp
  have tp: "truthy (js_or (p ''loose-price'') (p ''loosePriceCents''))"
    using lp parsePriceToCents_falsy[of "js_or (p ''loose-price'') (p ''loosePriceCents'')" pf]
    by (auto simp: loosePriceCents_parseProductData)
  have z: "deal_card d \<noteq> parseProductData pf q \<and> (\<forall>d'. evaluateProduct lc pf req q \<noteq> Inr (Some d'))"
    if "\<not> truthy (js_or (q ''loose-price'') (q ''loosePriceCents''))
          \<or> loosePriceCents (parseProductData pf q) = Finite 0" for q
  proof -
    from that have q0: "loosePriceCents (parseProductData pf q) = Finite 0"
      using parsePriceToCents_falsy[of "js_or (q ''loose-price'') (q ''loosePriceCents'')" pf]
      by (auto simp: loosePriceCents_parseProductData)
    have "loosePriceCents (deal_card d) \<noteq> Finite 0" using lp D(1) by simp
    with q0 have "deal_card d \<noteq> parseProductData pf q" by auto
    with evaluateProduct_zero_value[OF q0] show ?thesis by blast
  qed
  have ex: "\<exists>p. p \<in> set ps \<and> deal_card d = parseProductData pf p
                \<and> truthy (js_or (p ''loose-price'') (p ''loosePriceCents''))
                \<and> loosePriceCents (parseProductData pf p) \<noteq> Finite 0"
    using p D(1) tp lp by (intro exI[of _ p]) simp
  have al: "\<forall>p. \<not> truthy (js_or (p ''loose-price'') (p ''loosePriceCents''))
                  \<or> loosePriceCents (parseProductData pf p) = Finite 0
                \<longrightarrow> deal_card d \<noteq> parseProductData pf p
                    \<and> (\<forall>d'. evaluateProduct lc pf req p \<noteq> Inr (Some d'))"
    using z by (intro allI impI)
  from v ex al show ?thesis by (intro conjI)
qed

lemma findDeals_unpriced_scenario:
  "findDeals asciiLowerCase noParseFloat
     \<lparr> minRoi = Some (- 100), maxPrice = None, find_deals_request.genre = None \<rparr>
     [pricedProduct 0, unpricedProduct, pricedProduct 10000]
   = Inr [pricedDeal 10000 8000 170 (2398166801574789 / 1125899906842624)]"
  by (simp add: deals_eval calc_eval fl_values)

theorem findDeals_excludes_zero_market_value_witness:
  "findDeals asciiLowerCase noParseFloat
     \<lparr> minRoi = Some (- 100), maxPrice = None, find_deals_request.genre = None \<rparr>
     [pricedProduct 0, unpricedProduct, pricedProduct 10000]
     = Inr [pricedDeal 10000 8000 170 (2398166801574789 / 1125899906842624)]
   \<and> pricedDeal 10000 8000 170 (2398166801574789 / 1125899906842624)
       \<in> set [pricedDeal 10000 8000 170 (2398166801574789 / 1125899906842624)]
   \<and> \<not> truthy (js_or (unpricedProduct ''loose-price'') (unpricedProduct ''loosePriceCents''))
   \<and> loosePriceCents (parseProductData noParseFloat (pricedProduct 0)) = Finite 0
   \<and> marketValueCents (pricedDeal 10000 8000 170 (2398166801574789 / 1125899906842624)) \<noteq> Finite 0
   \<and> deal_card (pricedDeal 10000 8000 170 (2398166801574789 / 1125899906842624))
       \<noteq> parseProductData noParseFloat unpricedProduct
   \<and> deal_card (pricedDeal 10000 8000 170 (2398166801574789 / 1125899906842624))
       \<noteq> parseProductData noParseFloat (pricedProduct 0)"
proof -
  have u: "\<not> truthy (js_or (unpricedProduct ''loose-price'') (unpricedProduct ''loosePriceCents''))"
    by (simp add: unpricedProduct_def js_or_def)
  have z: "loosePriceCents (parseProductData noParseFloat (pricedProduct 0)) = Finite 0"
    by (simp add: parseProductData_def pricedProduct_def js_or_def)
  have m: "pricedDeal 10000 8000 170 (2398166801574789 / 1125899906842624)
             \<in> set [pricedDeal 10000 8000 170 (2398166801574789 / 1125899906842624)]" by simp
  note t = findDeals_excludes_zero_market_value[OF findDeals_unpriced_scenario m]
  from t have 1: "marketValueCents (pricedDeal 10000 8000 170 (2398166801574789 / 1125899906842624)) \<noteq> Finite 0"
    by (rule conjunct1)
  from t have a: "\<forall>p. \<not> truthy (js_or (p ''loose-price'') (p ''loosePriceCents''))
                  \<or> loosePriceCents (parseProductData noParseFloat p) = Finite 0
                \<longrightarrow> deal_card (pricedDeal 10000 8000 170 (2398166801574789 / 1125899906842624))
                      \<noteq> parseProductData noParseFloat p
                    \<and> (\<forall>d'. evaluateProduct asciiLowerCase noParseFloat
                                \<lparr> minRoi = Some (- 100), maxPrice = None,
                                  find_deals_request.genre = None \<rparr> p \<noteq> Inr (Some d'))"
    by (rule conjunct2[THEN conjunct2])
  from a[rule_format, of unpricedProduct] u
  have 2: "deal_card (pricedDeal 10000 8000 170 (2398166801574789 / 1125899906842624))
             \<noteq> parseProductData noParseFloat unpricedProduct" by simp
  from a[rule_format, of "pricedProduct 0"] z
  have 3: "deal_card (pricedDeal 10000 8000 170 (2398166801574789 / 1125899906842624))
             \<noteq> parseProductData noParseFloat (pricedProduct 0)" by simp
  from findDeals_unpriced_scenario m u z 1 2 3 show ?thesis by (intro conjI)
qed

text \<open>
  Claim C10. A product whose own genre is missing or empty is evaluated as if the
  request had no genre filter, so it is in the output whenever it would be without the
  filter. A product that the filter skips has a non-empty genre that does not contain
  the filter string, both in lower case.
\<close>

theorem genre_filter_keeps_products_without_genre:
  "(\<not> truthy (raw ''genre'')
      \<longrightarrow> evaluateProduct lc pf req raw
            = evaluateProduct lc pf (req\<lparr>find_deals_request.genre := None\<rparr>) raw
          \<and> (\<forall>deals d. findDeals lc pf req ps = Inr deals \<and> raw \<in> set ps
                \<and> evaluateProduct lc pf (req\<lparr>find_deals_request.genre := None\<rparr>) raw = Inr (Some d)
              \<longrightarrow> d \<in> set deals))
   \<and> (evaluateProduct lc pf req raw = Inr None
        \<and> evaluateProduct lc pf (req\<lparr>find_deals_request.genre := None\<rparr>) raw \<noteq> Inr None
      \<longrightarrow> (\<exists>g s. find_deals_request.genre req = Some g \<and> g \<noteq> [] \<and> raw ''genre'' = JStr s
                 \<and> s \<noteq> [] \<and> \<not> js_includes (lc s) (lc g)))"
proof (intro conjI impI allI)
  assume "\<not> truthy (raw ''genre'')"
  then show "evaluateProduct lc pf req raw
               = evaluateProduct lc pf (req\<lparr>find_deals_request.genre := None\<rparr>) raw"
    by (rule evaluateProduct_no_genre)
next
  fix deals d
  assume n: "\<not> truthy (raw ''genre'')"
    and a: "findDeals lc pf req ps = Inr deals \<and> raw \<in> set ps
              \<and> evaluateProduct lc pf (req\<lparr>find_deals_request.genre := None\<rparr>) raw = Inr (Some d)"
  from a evaluateProduct_no_genre[of raw lc pf req] n
  have "evaluateProduct lc pf req raw = Inr (Some d)" by simp
  with a findDeals_member[of lc pf req ps deals d] show "d \<in> set deals" by blast
next
  assume "evaluateProduct lc pf req raw = Inr None
            \<and> evaluateProduct lc pf (req\<lparr>find_deals_request.genre := None\<rparr>) raw \<noteq> Inr None"
  then show "\<exists>g s. find_deals_request.genre req = Some g \<and> g \<noteq> [] \<and> raw ''genre'' = JStr s
                 \<and> s \<noteq> [] \<and> \<not> js_includes (lc s) (lc g)"
    using evaluateProduct_skipped_by_genre by blast
qed

lemma findDeals_genre_scenario:
  "findDeals asciiLowerCase noParseFloat
     \<lparr> minRoi = Some 0, maxPrice = None, find_deals_request.genre = Some ''basketball'' \<rparr>
     [pricedProduct 10000, genreProduct ''Football Cards'' 10000,
      genreProduct ''Basketball Cards'' 10000]
   = Inr [pricedDeal 10000 8000 170 (2398166801574789 / 1125899906842624),
          genreDeal ''Basketball Cards'' 10000 8000 170 (2398166801574789 / 1125899906842624)]"
  by (simp add: deals_eval calc_eval fl_values)

lemma evaluateProduct_genre_scenario:
  "evaluateProduct asciiLowerCase noParseFloat
     \<lparr> minRoi = Some 0, maxPrice = None, find_deals_request.genre = Some ''basketball'' \<rparr>
     (genreProduct ''Football Cards'' 10000) = Inr None"
  "evaluateProduct asciiLowerCase noParseFloat
     (\<lparr> minRoi = Some 0, maxPrice = None, find_deals_request.genre = Some ''basketball'' \<rparr>
        \<lparr>find_deals_request.genre := None\<rparr>)
     (genreProduct ''Football Cards'' 10000)
   = Inr (Some (genreDeal ''Football Cards'' 10000 8000 170 (2398166801574789 / 1125899906842624)))"
  "evaluateProduct asciiLowerCase noParseFloat
     (\<lparr> minRoi = Some 0, maxPrice = None, find_deals_request.genre = Some ''basketball'' \<rparr>
        \<lparr>find_deals_request.genre := None\<rparr>)
     (pricedProduct 10000)
   = Inr (Some (pricedDeal 10000 8000 170 (2398166801574789 / 1125899906842624)))"
  by (simp_all add: deals_eval calc_eval fl_values)

theorem genre_filter_keeps_products_without_genre_witness:
  "\<not> truthy (pricedProduct 10000 ''genre'')
   \<and> findDeals asciiLowerCase noParseFloat
       \<lparr> minRoi = Some 0, maxPrice = None, find_deals_request.genre = Some ''basketball'' \<rparr>
       [pricedProduct 10000, genreProduct ''Football Cards'' 10000,
        genreProduct ''Basketball Cards'' 10000]
     = Inr [pricedDeal 10000 8000 170 (2398166801574789 / 1125899906842624),
            genreDeal ''Basketball Cards'' 10000 8000 170 (2398166801574789 / 1125899906842624)]
   \<and> pricedDeal 10000 8000 170 (2398166801574789 / 1125899906842624)
       \<in> set [pricedDeal 10000 8000 170 (2398166801574789 / 1125899906842624),
              genreDeal ''Basketball Cards'' 10000 8000 170
                (2398166801574789 / 1125899906842624)]
   \<and> evaluateProduct asciiLowerCase noParseFloat
       \<lparr> minRoi = Some 0, maxPrice = None, find_deals_request.genre = Some ''basketball'' \<rparr>
       (genreProduct ''Football Cards'' 10000) = Inr None
   \<and> genreProduct ''Football Cards'' 10000 ''genre'' = JStr ''Football Cards''
   \<and> \<not> js_includes (asciiLowerCase ''Football Cards'') (asciiLowerCase ''basketball'')"
proof -
  let ?b = "\<lparr> minRoi = Some 0, maxPrice = None, find_deals_request.genre = Some ''basketball'' \<rparr>"
  let ?ps = "[pricedProduct 10000, genreProduct ''Football Cards'' 10000,
              genreProduct ''Basketball Cards'' 10000]"
  have n: "\<not> truthy (pricedProduct 10000 ''genre'')" by (simp add: pricedProduct_def)
  have g: "genreProduct ''Football Cards'' 10000 ''genre'' = JStr ''Football Cards''"
    by (simp add: genreProduct_def)
  from genre_filter_keeps_products_without_genre[of "pricedProduct 10000" asciiLowerCase noParseFloat ?b ?ps] n
    findDeals_genre_scenario evaluateProduct_genre_scenario(3)
  have 1: "pricedDeal 10000 8000 170 (2398166801574789 / 1125899906842624)
             \<in> set [pricedDeal 10000 8000 170 (2398166801574789 / 1125899906842624),
                    genreDeal ''Basketball Cards'' 10000 8000 170
                      (2398166801574789 / 1125899906842624)]"
    by simp
  from genre_filter_keeps_products_without_genre[of "genreProduct ''Football Cards'' 10000"
      asciiLowerCase noParseFloat ?b ?ps] evaluateProduct_genre_scenario(1,2) g
  have 2: "\<not> js_includes (asciiLowerCase ''Football Cards'') (asciiLowerCase ''basketball'')"
    by simp
  from n g 1 2 findDeals_genre_scenario evaluateProduct_genre_scenario(1) show ?thesis
    by blast
qed

section \<open>Recording a sale\<close>

lemmas sale_eval =
  recordSale_def exampleItem_def exampleClock_def exampleStore_def exampleSaleEvent_def
  incompleteSaleEvent_def exampleSoldItem_def exampleSale_def exampleSoldStore_def
  toFixed2_def

lemma js_sub_exact:
  assumes "isInteger (Finite a)" "isInteger (Finite b)" "\<bar>a - b\<bar> < 2 ^ 53"
  shows "js_sub (Finite a) (Finite b) = Finite (a - b)"
proof -
  have a: "a = of_int \<lfloor>a\<rfloor>" using assms(1) unfolding isInteger.simps by (rule sym)
  have b: "b = of_int \<lfloor>b\<rfloor>" using assms(2) unfolding isInteger.simps by (rule sym)
  have "\<bar>(of_int (\<lfloor>a\<rfloor> - \<lfloor>b\<rfloor>) :: rat)\<bar> < of_int (2 ^ 53)"
    using assms(3) a b by (metis of_int_diff of_int_numeral of_int_power)
  then have "\<bar>\<lfloor>a\<rfloor> - \<lfloor>b\<rfloor>\<bar> < 2 ^ 53" by (simp only: of_int_less_iff flip: of_int_abs)
  from js_sub_int[OF this]
  have "js_sub (Finite (of_int \<lfloor>a\<rfloor>)) (Finite (of_int \<lfloor>b\<rfloor>)) = Finite (of_int \<lfloor>a\<rfloor> - of_int \<lfloor>b\<rfloor>)"
    by simp
  with a b show ?thesis by simp
qed

lemma recordSale_scenario:
  "recordSale exampleClock exampleSaleEvent exampleStore
     = (Response 200 (Recorded exampleSale exampleSoldItem), exampleSoldStore)"
  by (simp add: sale_eval calc_eval fl_values)

text \<open>
  Claim C4, as the code has it. When a sale is finalized, the handler writes the same
  sale price, fee, net profit and ROI to the inventory record and to the new sale
  record, so the sale record is a snapshot of the inventory record's financial fields.
  The values come from the handler's own formulas, not from \<open>calculateProfit\<close>: the fee is
  the caller's \<open>actualFees\<close> in cents when supplied and otherwise
  \<open>Math.round(soldPriceCents * 0.13 + 30)\<close>; the net profit is the sale price minus the
  purchase price minus the fee, with no shipping and no other costs; the ROI is the net
  profit over the purchase price in percent, printed with two decimals and read back,
  and is zero unless the purchase price is positive.
\<close>

theorem recordSale_snapshot:
  assumes "httpMethod ev = ''POST''" and "body ev = Inr b"
    and "sale_request.inventoryId b = Some i" and "i \<noteq> []"
    and "soldPrice b = Some price"
    and "inventory st i = Some it" and "\<not> sold it"
  shows "\<exists>s it'.
           recordSale clk ev st
             = (Response 200 (Recorded s it'),
                st\<lparr> inventory := (inventory st)(i \<mapsto> it'),
                    sales := (sales st)(newSaleId clk \<mapsto> s) \<rparr>)
         \<and> sold it'
         \<and> item.soldPriceCents it' = Some (sale.soldPriceCents s)
         \<and> item.ebayFeesCents it' = Some (sale.ebayFeesCents s)
         \<and> item.netProfitCents it' = Some (sale.netProfitCents s)
         \<and> item.roi it' = Some (sale.roi s)
         \<and> item.purchasePriceCents it' = item.purchasePriceCents it
         \<and> sale.purchasePriceCents s = item.purchasePriceCents it
         \<and> sale.soldPriceCents s = js_round (js_mul (Finite price) (Finite 100))
         \<and> sale.ebayFeesCents s
             = (case actualFees b of
                  Some f \<Rightarrow> js_round (js_mul (Finite f) (Finite 100))
                | None \<Rightarrow>
                    js_round (js_add (js_mul (sale.soldPriceCents s) (Finite (fl (13 / 100))))
                                     (Finite 30)))
         \<and> sale.netProfitCents s
             = js_sub (js_sub (sale.soldPriceCents s) (Finite (item.purchasePriceCents it)))
                 (sale.ebayFeesCents s)
         \<and> (\<exists>c f :: int.
               sale.soldPriceCents s = Finite (of_int c)
             \<and> sale.ebayFeesCents s = Finite (of_int f)
             \<and> (isInteger (Finite (item.purchasePriceCents it))
                  \<and> \<bar>of_int c - item.purchasePriceCents it\<bar> < 2 ^ 53
                  \<and> \<bar>of_int c - item.purchasePriceCents it - of_int f\<bar> < 2 ^ 53
                \<longrightarrow> sale.netProfitCents s
                      = Finite (of_int c - item.purchasePriceCents it - of_int f)))
         \<and> sale.roi s
             = (if js_gt (Finite (item.purchasePriceCents it)) (Finite 0)
                then parseFloat_toFixed2
                       (js_mul (js_div (sale.netProfitCents s)
                                       (Finite (item.purchasePriceCents it)))
                               (Finite 100))
                else Finite 0)"
proof -
  define purchase where "purchase = Finite (item.purchasePriceCents it)"
  define cents where "cents = js_round (js_mul (Finite price) (Finite 100))"
  define fees where
    "fees = (case actualFees b of
               Some f \<Rightarrow> js_round (js_mul (Finite f) (Finite 100))
             | None \<Rightarrow> js_round (js_add (js_mul cents (Finite (fl (13 / 100)))) (Finite 30)))"
  define net where "net = js_sub (js_sub cents purchase) fees"
  define r where
    "r = (if js_gt purchase (Finite 0)
          then parseFloat_toFixed2 (js_mul (js_div net purchase) (Finite 100))
          else Finite 0)"
  define date1 where
    "date1 = (case sale_request.soldDate b of
                Some d \<Rightarrow> if d = [] then itemSoldDate clk else d
              | None \<Rightarrow> itemSoldDate clk)"
  define date2 where
    "date2 = (case sale_request.soldDate b of
                Some d \<Rightarrow> if d = [] then saleSoldDate clk else d
              | None \<Rightarrow> saleSoldDate clk)"
  define remark where "remark = (case sale_request.notes' b of Some n \<Rightarrow> n | None \<Rightarrow> [])"
  define it' where
    "it' = it\<lparr> sold := True, item.soldDate := Some date1, item.soldPriceCents := Some cents,
               item.ebayFeesCents := Some fees, item.netProfitCents := Some net,
               item.roi := Some r, saleNotes := Some remark,
               updatedAt := Some (itemUpdatedAt clk) \<rparr>"
  define s where
    "s = \<lparr> sale_id = newSaleId clk, sale.inventoryId = i, sale.cardId = item.cardId it,
           sale.cardName = item.cardName it, sale.consoleName = item.consoleName it,
           sale.purchaseDate = item.purchaseDate it, sale.soldDate = date2,
           sale.purchasePriceCents = item.purchasePriceCents it, sale.soldPriceCents = cents,
           sale.ebayFeesCents = fees, sale.netProfitCents = net, sale.roi = r,
           sale.notes' = remark, sale.createdAt = saleCreatedAt clk \<rparr>"
  have R: "recordSale clk ev st
             = (Response 200 (Recorded s it'),
                st\<lparr> inventory := (inventory st)(i \<mapsto> it'),
                    sales := (sales st)(newSaleId clk \<mapsto> s) \<rparr>)"
    using assms
    unfolding s_def it'_def r_def net_def fees_def cents_def date1_def date2_def remark_def
      purchase_def
    by (simp add: recordSale_def Let_def
          del: js_round.simps js_mul.simps js_add.simps js_sub.simps js_div.simps)
  obtain c :: int where c: "cents = Finite (of_int c)"
    unfolding cents_def by simp
  obtain f :: int where f: "fees = Finite (of_int f)"
    unfolding fees_def c by (cases "actualFees b") simp_all
  have exact: "net = Finite (of_int c - item.purchasePriceCents it - of_int f)"
    if p: "isInteger (Finite (item.purchasePriceCents it))"
      and b1: "\<bar>of_int c - item.purchasePriceCents it\<bar> < 2 ^ 53"
      and b2: "\<bar>of_int c - item.purchasePriceCents it - of_int f\<bar> < 2 ^ 53"
  proof -
    have ic: "isInteger (Finite (of_int c))" and "isInteger (Finite (of_int f))" by simp_all
    have d: "js_sub (Finite (of_int c)) (Finite (item.purchasePriceCents it))
               = Finite (of_int c - item.purchasePriceCents it)"
      using ic p b1 by (rule js_sub_exact)
    have "isInteger (Finite (of_int c - item.purchasePriceCents it))"
      using p unfolding isInteger.simps by (metis of_int_diff floor_of_int)
    from js_sub_exact[OF this \<open>isInteger (Finite (of_int f))\<close> b2] d show ?thesis
      by (simp add: net_def c f purchase_def)
  qed
  have sc: "sale.soldPriceCents s = cents" and sf: "sale.ebayFeesCents s = fees"
    and sn: "sale.netProfitCents s = net" and sp: "sale.purchasePriceCents s = item.purchasePriceCents it"
    by (simp_all add: s_def)
  have F1: "sold it'" by (simp add: it'_def)
  have F2: "item.soldPriceCents it' = Some (sale.soldPriceCents s)" by (simp add: it'_def s_def)
  have F3: "item.ebayFeesCents it' = Some (sale.ebayFeesCents s)" by (simp add: it'_def s_def)
  have F4: "item.netProfitCents it' = Some (sale.netProfitCents s)" by (simp add: it'_def s_def)
  have F5: "item.roi it' = Some (sale.roi s)" by (simp add: it'_def s_def)
  have F6: "item.purchasePriceCents it' = item.purchasePriceCents it" by (simp add: it'_def)
  have F7: "sale.soldPriceCents s = js_round (js_mul (Finite price) (Finite 100))"
    by (simp add: sc cents_def)
  have F8: "sale.ebayFeesCents s
              = (case actualFees b of
                   Some f \<Rightarrow> js_round (js_mul (Finite f) (Finite 100))
                 | None \<Rightarrow>
                     js_round (js_add (js_mul (sale.soldPriceCents s) (Finite (fl (13 / 100))))
                                      (Finite 30)))"
    unfolding sc sf by (rule fees_def)
  have F9: "sale.netProfitCents s
              = js_sub (js_sub (sale.soldPriceCents s) (Finite (item.purchasePriceCents it)))
                  (sale.ebayFeesCents s)"
    unfolding sc sf sn net_def purchase_def by (rule refl)
  have F10: "\<exists>c f :: int.
               sale.soldPriceCents s = Finite (of_int c)
             \<and> sale.ebayFeesCents s = Finite (of_int f)
             \<and> (isInteger (Finite (item.purchasePriceCents it))
                  \<and> \<bar>of_int c - item.purchasePriceCents it\<bar> < 2 ^ 53
                  \<and> \<bar>of_int c - item.purchasePriceCents it - of_int f\<bar> < 2 ^ 53
                \<longrightarrow> sale.netProfitCents s
                      = Finite (of_int c - item.purchasePriceCents it - of_int f))"
    unfolding sc sf sn using exact c f by (intro exI[of _ c] exI[of _ f]) simp
  have F11: "sale.roi s
              = (if js_gt (Finite (item.purchasePriceCents it)) (Finite 0)
                 then parseFloat_toFixed2
                        (js_mul (js_div (sale.netProfitCents s)
                                        (Finite (item.purchasePriceCents it)))
                                (Finite 100))
                 else Finite 0)"
    unfolding sn by (simp add: s_def r_def purchase_def)
  show ?thesis
    by (intro exI[of _ s] exI[of _ it'] conjI; fact)
qed

theorem recordSale_snapshot_witness:
  "httpMethod exampleSaleEvent = ''POST''
   \<and> body exampleSaleEvent
       = Inr \<lparr> sale_request.inventoryId = Some ''inv_1'', sale_request.soldDate = None,
               soldPrice = Some 75, actualFees = None, sale_request.notes' = None \<rparr>
   \<and> ''inv_1'' \<noteq> []
   \<and> inventory exampleStore ''inv_1'' = Some exampleItem
   \<and> \<not> sold exampleItem
   \<and> recordSale exampleClock exampleSaleEvent exampleStore
       = (Response 200 (Recorded exampleSale exampleSoldItem), exampleSoldStore)
   \<and> item.netProfitCents exampleSoldItem = Some (sale.netProfitCents exampleSale)
   \<and> item.ebayFeesCents exampleSoldItem = Some (sale.ebayFeesCents exampleSale)
   \<and> item.roi exampleSoldItem = Some (sale.roi exampleSale)
   \<and> sale.soldPriceCents exampleSale = Finite 7500
   \<and> sale.ebayFeesCents exampleSale = Finite 1005
   \<and> item.purchasePriceCents exampleItem = 5000
   \<and> sale.netProfitCents exampleSale = Finite (7500 - 5000 - 1005)"
proof -
  let ?b = "\<lparr> sale_request.inventoryId = Some ''inv_1'', sale_request.soldDate = None,
              soldPrice = Some 75, actualFees = None, sale_request.notes' = None \<rparr>"
  have h: "httpMethod exampleSaleEvent = ''POST''" "body exampleSaleEvent = Inr ?b"
    "sale_request.inventoryId ?b = Some ''inv_1''" "''inv_1'' \<noteq> []" "soldPrice ?b = Some 75"
    "inventory exampleStore ''inv_1'' = Some exampleItem" "\<not> sold exampleItem"
    by (simp_all add: exampleSaleEvent_def exampleStore_def exampleItem_def)
  from recordSale_snapshot[OF h, of exampleClock] obtain s it' where
    1: "recordSale exampleClock exampleSaleEvent exampleStore
          = (Response 200 (Recorded s it'),
             exampleStore\<lparr> inventory := (inventory exampleStore)(''inv_1'' \<mapsto> it'),
                            sales := (sales exampleStore)(newSaleId exampleClock \<mapsto> s) \<rparr>)"
    and 2: "item.netProfitCents it' = Some (sale.netProfitCents s)"
      "item.ebayFeesCents it' = Some (sale.ebayFeesCents s)" "item.roi it' = Some (sale.roi s)"
    and 3: "\<exists>c f :: int.
               sale.soldPriceCents s = Finite (of_int c)
             \<and> sale.ebayFeesCents s = Finite (of_int f)
             \<and> (isInteger (Finite (item.purchasePriceCents exampleItem))
                  \<and> \<bar>of_int c - item.purchasePriceCents exampleItem\<bar> < 2 ^ 53
                  \<and> \<bar>of_int c - item.purchasePriceCents exampleItem - of_int f\<bar> < 2 ^ 53
                \<longrightarrow> sale.netProfitCents s
                      = Finite (of_int c - item.purchasePriceCents exampleItem - of_int f))"
    by blast
  from 1 recordSale_scenario have e: "s = exampleSale" "it' = exampleSoldItem" by simp_all
  have v: "sale.soldPriceCents exampleSale = Finite 7500"
    "sale.ebayFeesCents exampleSale = Finite 1005" "item.purchasePriceCents exampleItem = 5000"
    by (simp_all add: exampleSale_def exampleItem_def)
  from 3 obtain c f :: int where
    c: "sale.soldPriceCents exampleSale = Finite (of_int c)"
    and f: "sale.ebayFeesCents exampleSale = Finite (of_int f)"
    and n: "isInteger (Finite (item.purchasePriceCents exampleItem))
              \<and> \<bar>of_int c - item.purchasePriceCents exampleItem\<bar> < 2 ^ 53
              \<and> \<bar>of_int c - item.purchasePriceCents exampleItem - of_int f\<bar> < 2 ^ 53
            \<longrightarrow> sale.netProfitCents exampleSale
                  = Finite (of_int c - item.purchasePriceCents exampleItem - of_int f)"
    unfolding e by blast
  from c f v have cf: "(of_int c :: rat) = 7500" "(of_int f :: rat) = 1005" by simp_all
  from n have "sale.netProfitCents exampleSale = Finite (7500 - 5000 - 1005)"
    unfolding cf v by simp
  with h 2 e v recordSale_scenario show ?thesis by simp
qed

text \<open>
  Claim C4, as the specification states it, asks for the values of \<open>calculateProfit\<close>.
  For an item bought for 5000 cents and sold for 75 dollars, the handler stores a fee
  of 1005 cents, a net profit of \<open>7500 - 5000 - 1005 = 1495\<close> cents and an ROI of 29.9,
  on both records. \<open>calculateProfit\<close> also deducts the default shipping of 500 cents, and
  gives a net profit of 995 cents and an ROI of 19.9.
\<close>

theorem recordSale_snapshot_counterexample:
  "recordSale exampleClock exampleSaleEvent exampleStore
     = (Response 200 (Recorded exampleSale exampleSoldItem), exampleSoldStore)
   \<and> item.purchasePriceCents exampleItem = 5000
   \<and> sale.soldPriceCents exampleSale = Finite 7500
   \<and> sale.netProfitCents exampleSale = Finite 1495
   \<and> item.netProfitCents exampleSoldItem = Some (Finite 1495)
   \<and> sale.roi exampleSale = Finite (fl (299 / 10))
   \<and> profit.netProfitCents
       (calculateProfit (Finite 5000) (Finite 7500) DEFAULT_SHIPPING_COST_CENTS (Finite 0))
       = Finite 995
   \<and> profit.roi
       (calculateProfit (Finite 5000) (Finite 7500) DEFAULT_SHIPPING_COST_CENTS (Finite 0))
       = Finite (fl (199 / 10))
   \<and> sale.netProfitCents exampleSale
       \<noteq> profit.netProfitCents
            (calculateProfit (Finite 5000) (Finite 7500) DEFAULT_SHIPPING_COST_CENTS (Finite 0))
   \<and> sale.roi exampleSale
       \<noteq> profit.roi
            (calculateProfit (Finite 5000) (Finite 7500) DEFAULT_SHIPPING_COST_CENTS (Finite 0))"
  by (simp add: sale_eval calc_eval fl_values)

lemma recordSale_already_sold_only:
  assumes "fst (recordSale clk ev st) = Response 400 (Failure ''Item already sold'')"
  shows "\<exists>b i it. body ev = Inr b \<and> sale_request.inventoryId b = Some i
           \<and> inventory st i = Some it \<and> sold it"
  using assms
  by (auto simp: recordSale_def Let_def split: if_splits sum.splits option.splits prod.splits)

text \<open>
  Claim C5, as the code has it. A request to finalize a sale on an item whose \<open>sold\<close>
  flag is set leaves both collections of the store as they are, whatever else the
  request holds: no field of any inventory record changes and no sale record is added.
  A request that passes the method and field checks is answered with status 400, the
  status of a request that fails the field check, and with the message
  \<open>Item already sold\<close>; by \<open>recordSale_already_sold_only\<close> the handler gives this answer
  in no other situation.
\<close>

theorem recordSale_already_sold:
  assumes "body ev = Inr b" and "sale_request.inventoryId b = Some i"
    and "inventory st i = Some it" and "sold it"
  shows "snd (recordSale clk ev st) = st
         \<and> (\<forall>s it'. fst (recordSale clk ev st) \<noteq> Response 200 (Recorded s it'))
         \<and> (httpMethod ev = ''POST'' \<and> i \<noteq> [] \<and> soldPrice b \<noteq> None
            \<longrightarrow> recordSale clk ev st = (Response 400 (Failure ''Item already sold''), st))"
  using assms
  by (auto simp: recordSale_def split: option.splits)

theorem recordSale_already_sold_witness:
  "body exampleSaleEvent
     = Inr \<lparr> sale_request.inventoryId = Some ''inv_1'', sale_request.soldDate = None,
             soldPrice = Some 75, actualFees = None, sale_request.notes' = None \<rparr>
   \<and> inventory exampleSoldStore ''inv_1'' = Some exampleSoldItem
   \<and> sold exampleSoldItem
   \<and> httpMethod exampleSaleEvent = ''POST'' \<and> ''inv_1'' \<noteq> []
   \<and> recordSale exampleClock exampleSaleEvent exampleSoldStore
       = (Response 400 (Failure ''Item already sold''), exampleSoldStore)"
proof -
  let ?b = "\<lparr> sale_request.inventoryId = Some ''inv_1'', sale_request.soldDate = None,
              soldPrice = Some 75, actualFees = None, sale_request.notes' = None \<rparr>"
  have h: "body exampleSaleEvent = Inr ?b" "sale_request.inventoryId ?b = Some ''inv_1''"
    "inventory exampleSoldStore ''inv_1'' = Some exampleSoldItem" "sold exampleSoldItem"
    by (simp_all add: exampleSaleEvent_def exampleSoldStore_def exampleSoldItem_def)
  have m: "httpMethod exampleSaleEvent = ''POST''" "''inv_1'' \<noteq> []" "soldPrice ?b \<noteq> None"
    by (simp_all add: exampleSaleEvent_def)
  from recordSale_already_sold[OF h, of exampleClock] m h show ?thesis by simp
qed

text \<open>
  Claim C5, as the specification states it, has the request rejected as a conflict, a
  failure kind distinct from a validation failure. The handler answers the request for
  the sold item with status 400 and the message \<open>Item already sold\<close>, and the same
  request without the sale price with status 400 and the message
  \<open>inventoryId and soldPrice are required\<close>: both answers carry the status of a
  validation failure, not 409 and not the 404 of a missing record, and differ in the
  message only.
\<close>

theorem recordSale_already_sold_counterexample:
  "recordSale exampleClock exampleSaleEvent exampleSoldStore
     = (Response 400 (Failure ''Item already sold''), exampleSoldStore)
   \<and> recordSale exampleClock incompleteSaleEvent exampleSoldStore
       = (Response 400 (Failure ''inventoryId and soldPrice are required''), exampleSoldStore)
   \<and> statusCode (fst (recordSale exampleClock exampleSaleEvent exampleSoldStore))
       = statusCode (fst (recordSale exampleClock incompleteSaleEvent exampleSoldStore))
   \<and> spec_failure_kind (statusCode (fst (recordSale exampleClock exampleSaleEvent exampleSoldStore)))
       = Some ValidationFailure
   \<and> spec_failure_kind (statusCode (fst (recordSale exampleClock exampleSaleEvent exampleSoldStore)))
       \<noteq> Some DomainStateConflict"
  by (simp add: sale_eval spec_failure_kind_def)

end
